theory Spec2Isabelle
  imports Complex_Main
begin

section \<open>Errors\<close>

text \<open>
  The exceptions that the modelled code can raise, as values. \<open>ValueError\<close> is numpy's
  failure to broadcast two operands, \<open>IndexError\<close> an index beyond an axis, \<open>MaskError\<close>
  numpy's refusal of a mask whose size does not fit the data, \<open>TypeError\<close> an object of
  the wrong kind, and \<open>LibraryError name\<close> an exception of class \<open>name\<close> raised
  inside a library call and propagated unchanged by the caller.
\<close>

datatype error = ValueError | IndexError | MaskError | TypeError | LibraryError string

section \<open>The beam model of \<open>tlpipe/core/tl_array.py\<close>\<close>

text \<open>
  Floating-point numbers are modelled by the reals: rounding, overflow and the special
  values are not part of this model of the beams. The speed of light \<open>const.c\<close> comes from
  a module that is not among the sources; it is the parameter \<open>c\<close> of every definition
  that uses it.

  \<open>np.sinc\<close> is the normalised sinc function.
\<close>

definition sinc :: "real \<Rightarrow> real" where
  "sinc x = (if x = 0 then 1 else sin (pi * x) / (pi * x))"

type_synonym vec3 = "real \<times> real \<times> real"

text \<open>\<open>np.dot\<close> of two vectors of three components.\<close>

fun dot :: "vec3 \<Rightarrow> vec3 \<Rightarrow> real" where
  "dot (a1, a2, a3) (b1, b2, b3) = a1 * b1 + a2 * b2 + a3 * b3"

text \<open>
  An elementwise numpy operation on two arrays that are broadcast along their last axis.
  The arrays are given by their last axis: an array of shape \<open>(M,)\<close> or the only row of an
  array of shape \<open>(1, N)\<close>. Equal lengths are paired, a length of one is stretched, and
  any other pair of lengths raises \<open>ValueError\<close>.
\<close>

definition broadcast :: "('a \<Rightarrow> 'b \<Rightarrow> 'c) \<Rightarrow> 'a list \<Rightarrow> 'b list \<Rightarrow> error + 'c list" where
  "broadcast f xs ys =
     (if length xs = length ys then Inr (map2 f xs ys)
      else if length xs = 1 then Inr (map (f (hd xs)) ys)
      else if length ys = 1 then Inr (map (\<lambda>x. f x (hd ys)) xs)
      else Inl ValueError)"

text \<open>
  Both constructors start with \<open>freqs = 1.0e-3 * np.array([freqs])\<close>, an array of shape
  \<open>(1, N)\<close> in GHz, written here as its only row; \<open>wavelength\<close> is the expression
  \<open>const.c / (1.0e9 * freqs)\<close> that both classes bind to \<open>lmbda\<close>.
\<close>

definition to_GHz :: "real list \<Rightarrow> real list" where
  "to_GHz freqs = map (\<lambda>f. 0.001 * f) freqs"

definition wavelength :: "real \<Rightarrow> real list \<Rightarrow> real list" where
  "wavelength c freqs = map (\<lambda>f. c / (10 ^ 9 * f)) freqs"

text \<open>
  \<open>DsihBeam.__init__\<close> hands \<open>freqs\<close>, \<open>xwidth\<close> and \<open>ywidth\<close> to the constructor of
  aipy's \<open>Beam2DGaussian\<close>; the record holds these three arguments.
\<close>

record dish_beam =
  dish_freqs :: "real list"
  xwidth :: "real list"
  ywidth :: "real list"

definition DsihBeam :: "real \<Rightarrow> real list \<Rightarrow> real \<Rightarrow> dish_beam" where
  "DsihBeam c freqs diameter =
     (let freqs' = to_GHz freqs;
          lmbda = wavelength c freqs';
          xwidth' = map (\<lambda>l. 1.22 * l / diameter) lmbda;
          ywidth' = xwidth'
      in \<lparr>dish_freqs = freqs', xwidth = xwidth', ywidth = ywidth'\<rparr>)"

text \<open>
  \<open>CylinderBeam.__init__\<close> stores the frequencies (through aipy's \<open>Beam\<close>, as
  \<open>self.freqs\<close>), the width and the length.
\<close>

record cylinder_beam =
  freqs :: "real list"
  width :: real
  length_m :: real

definition CylinderBeam :: "real list \<Rightarrow> real \<Rightarrow> real \<Rightarrow> cylinder_beam" where
  "CylinderBeam freqs0 width0 length0 =
     \<lparr>freqs = to_GHz freqs0, width = width0, length_m = length0\<rparr>"

text \<open>
  The argument \<open>xyz\<close> of \<open>response\<close> is one direction (an array of shape \<open>(3,)\<close>) or
  several (shape \<open>(M, 3)\<close>). The projections of one direction are scalars, which
  broadcast like an axis of length one.
\<close>

datatype xyz = Single vec3 | Multiple "vec3 list"

fun directions :: "xyz \<Rightarrow> vec3 list" where
  "directions (Single n) = [n]"
| "directions (Multiple ns) = ns"

definition factor :: real where
  "factor = 1 / 10 ^ 60"

text \<open>
  \<open>CylinderBeam.response\<close>. The result has shape \<open>(1, K)\<close>: a list with one row.
\<close>

definition response :: "real \<Rightarrow> cylinder_beam \<Rightarrow> xyz \<Rightarrow> error + real list list" where
  "response c self xyz =
     (let vec_n = directions xyz;
          vec_z = (0, 0, 1);
          nz = map (\<lambda>n. dot n vec_z) vec_n;
          vec_u = (1, 0, 0);
          vec_v = (0, 1, 0);
          nu = map (\<lambda>n. dot n vec_u) vec_n;
          nv = map (\<lambda>n. dot n vec_v) vec_n;
          lmbda = wavelength c (freqs self);
          nz' = map (\<lambda>z. if z \<le> 0 then 0 else z) nz
      in case broadcast (\<lambda>u l. sinc (width self * u / l)) nu lmbda of
           Inl e \<Rightarrow> Inl e
         | Inr su \<Rightarrow>
             (case broadcast (\<lambda>v l. sinc (factor * v / l)) nv lmbda of
                Inl e \<Rightarrow> Inl e
              | Inr sv \<Rightarrow>
                  (case broadcast (*) su sv of
                     Inl e \<Rightarrow> Inl e
                   | Inr p \<Rightarrow>
                       (case broadcast (*) p nz' of
                          Inl e \<Rightarrow> Inl e
                        | Inr r \<Rightarrow> Inr [r]))))"

text \<open>
  The closed form that the specification gives for the response to the direction
  \<open>(x, y, z)\<close> at the frequency \<open>f\<close> (in MHz, so \<open>f * 10 ^ 6\<close> in Hz), to be compared
  with \<open>response\<close>.
\<close>

fun spec_response :: "real \<Rightarrow> real \<Rightarrow> real \<Rightarrow> vec3 \<Rightarrow> real" where
  "spec_response c Wd f (x, y, z) =
     (let lam = c / (f * 10 ^ 6); eps = 1 / 10 ^ 60; nz' = (if 0 < z then z else 0)
      in sinc (Wd * x / lam) * sinc (eps * y / lam) * nz')"

fun unit_vector :: "vec3 \<Rightarrow> bool" where
  "unit_vector (x, y, z) = (x\<^sup>2 + y\<^sup>2 + z\<^sup>2 = 1)"

section \<open>The visibility conditioning of \<open>Plot.plot\<close> in \<open>tlpipe/plot/plot_waterfall.py\<close>\<close>

text \<open>
  The part of \<open>Plot.plot\<close> that computes \<open>vis1\<close> from \<open>vis\<close>, \<open>vis_mask\<close>, the
  parameters \<open>flag_mask\<close>, \<open>flag_ns\<close> and \<open>interpolate_ns\<close>, and the dataset \<open>ns_on\<close> of
  the timestream. The specification calls this part \<open>VisibilityConditioner.condition\<close>.
\<close>

subsection \<open>Samples\<close>

text \<open>
  A float is a real number or not-a-number; infinities and rounding are not modelled.
  Arithmetic with not-a-number gives not-a-number.
\<close>

datatype pyfloat = Fin real | NaN

fun fadd :: "pyfloat \<Rightarrow> pyfloat \<Rightarrow> pyfloat" where
  "fadd (Fin a) (Fin b) = Fin (a + b)"
| "fadd _ _ = NaN"

fun fsub :: "pyfloat \<Rightarrow> pyfloat \<Rightarrow> pyfloat" where
  "fsub (Fin a) (Fin b) = Fin (a - b)"
| "fsub _ _ = NaN"

fun fmul :: "pyfloat \<Rightarrow> pyfloat \<Rightarrow> pyfloat" where
  "fmul (Fin a) (Fin b) = Fin (a * b)"
| "fmul _ _ = NaN"

text \<open>
  A complex sample, with numpy's complex addition and multiplication on the two parts.
\<close>

datatype complex128 = Complex128 (creal: pyfloat) (cimag: pyfloat)

fun cadd :: "complex128 \<Rightarrow> complex128 \<Rightarrow> complex128" where
  "cadd (Complex128 a b) (Complex128 c d) = Complex128 (fadd a c) (fadd b d)"

fun cmul :: "complex128 \<Rightarrow> complex128 \<Rightarrow> complex128" where
  "cmul (Complex128 a b) (Complex128 c d) =
     Complex128 (fsub (fmul a c) (fmul b d)) (fadd (fmul a d) (fmul b c))"

text \<open>
  A float operand of a complex operation is converted to a complex number with imaginary
  part zero; \<open>one_J\<close> is the literal \<open>1.0J\<close>, and \<open>recombine x y\<close> is one element of
  \<open>itp_real(on) + 1.0J * itp_imag(on)\<close>. The value \<open>nan_nan\<close> is
  \<open>complex(np.nan, np.nan)\<close>.
\<close>

definition of_float :: "pyfloat \<Rightarrow> complex128" where
  "of_float x = Complex128 x (Fin 0)"

definition one_J :: complex128 where
  "one_J = Complex128 (Fin 0) (Fin 1)"

definition recombine :: "pyfloat \<Rightarrow> pyfloat \<Rightarrow> complex128" where
  "recombine x y = cadd (of_float x) (cmul one_J (of_float y))"

definition nan_nan :: complex128 where
  "nan_nan = Complex128 NaN NaN"

subsection \<open>Arrays of two axes\<close>

text \<open>
  An array indexed by time and frequency: its rows (one per time index) and the length
  of the frequency axis, \<open>shape[1]\<close>, which an array with no rows still has. Every row of
  a numpy array has that length (\<open>well_shaped\<close>).
\<close>

datatype 'a ndarray = NdArray (shape1: nat) (rows: "'a list list")

definition shape0 :: "'a ndarray \<Rightarrow> nat" where
  "shape0 a = length (rows a)"

definition well_shaped :: "'a ndarray \<Rightarrow> bool" where
  "well_shaped a = list_all (\<lambda>r. length r = shape1 a) (rows a)"

text \<open>\<open>np.where(b)[0]\<close>: the indices at which a boolean array is true, in order.\<close>

definition where_ix :: "bool list \<Rightarrow> nat list" where
  "where_ix bs = filter (\<lambda>i. bs ! i) [0..<length bs]"

text \<open>
  The three indexing operations that the code uses: \<open>a[ix] = v\<close> (every row of \<open>ix\<close>
  is filled with the scalar \<open>v\<close>), \<open>a[ix, fi]\<close> and \<open>a[ix, fi] = vs\<close>. An index beyond
  an axis raises \<open>IndexError\<close> before anything is written; values that are neither as
  many as the indices nor a single one raise \<open>ValueError\<close>.
\<close>

definition set_rows :: "'a ndarray \<Rightarrow> nat list \<Rightarrow> 'a \<Rightarrow> error + 'a ndarray" where
  "set_rows a ix v =
     (if list_all (\<lambda>i. i < shape0 a) ix
      then Inr (NdArray (shape1 a) (fold (\<lambda>i rs. rs[i := replicate (shape1 a) v]) ix (rows a)))
      else Inl IndexError)"

definition get_col :: "'a ndarray \<Rightarrow> nat list \<Rightarrow> nat \<Rightarrow> error + 'a list" where
  "get_col a ix fi =
     (if fi < shape1 a \<and> list_all (\<lambda>i. i < shape0 a) ix
      then Inr (map (\<lambda>i. rows a ! i ! fi) ix)
      else Inl IndexError)"

definition set_col :: "'a ndarray \<Rightarrow> nat list \<Rightarrow> nat \<Rightarrow> 'a list \<Rightarrow> error + 'a ndarray" where
  "set_col a ix fi vs =
     (if \<not> (fi < shape1 a \<and> list_all (\<lambda>i. i < shape0 a) ix) then Inl IndexError
      else if length vs \<noteq> length ix \<and> length vs \<noteq> 1 then Inl ValueError
      else Inr (NdArray (shape1 a)
             (fold (\<lambda>(i, v) rs. rs[i := (rs ! i)[fi := v]])
                (zip ix (if length vs = length ix then vs else replicate (length ix) (hd vs)))
                (rows a))))"

subsection \<open>Objects and the heap\<close>

text \<open>
  Arrays are mutable objects. The heap is the list of the objects allocated so far, and
  an address is a position in it; a new object is appended. The caller passes the address
  of a complex array as \<open>vis\<close> and of a boolean array as \<open>vis_mask\<close>; an address of
  anything else is answered with \<open>TypeError\<close>.
\<close>

type_synonym addr = nat

datatype obj = Vis "complex128 ndarray" | Mask "bool ndarray"

type_synonym heap = "obj list"

definition lookup :: "heap \<Rightarrow> addr \<Rightarrow> obj option" where
  "lookup h p = (if p < length h then Some (h ! p) else None)"

text \<open>
  The value bound to \<open>vis1\<close>: a masked array over the data at the first address and the
  mask at the second, or a plain array at an address.
\<close>

datatype vis1 = MaskedArray addr addr | Array addr

record params =
  flag_mask :: bool
  flag_ns :: bool
  interpolate_ns :: bool

text \<open>
  The timestream \<open>ts\<close> is read as a dictionary from dataset names to datasets; the code
  looks only at the boolean dataset \<open>ns_on\<close>.
\<close>

type_synonym timestream = "string \<rightharpoonup> bool list"

text \<open>
  \<open>InterpolatedUnivariateSpline\<close> belongs to scipy and is a parameter of the model: its
  constructor takes the abscissae and the ordinates and either raises or returns the
  interpolant, which is evaluated at one time index at a time.
\<close>

type_synonym spline = "nat list \<Rightarrow> pyfloat list \<Rightarrow> error + (nat \<Rightarrow> pyfloat)"

text \<open>
  \<open>np.ma.array(vis, mask=vis_mask)\<close> builds a masked array over the data without copying
  them. numpy accepts a mask of the shape of the data, of size one, or of the size of the
  data (the last two it resizes or reshapes into a mask of its own), and raises
  \<open>MaskError\<close> otherwise. Neither array is written.
\<close>

definition ma_array :: "heap \<Rightarrow> addr \<Rightarrow> addr \<Rightarrow> (error + vis1) \<times> heap" where
  "ma_array h vis vis_mask =
     (case (lookup h vis, lookup h vis_mask) of
        (Some (Vis a), Some (Mask m)) \<Rightarrow>
          (if (shape0 m = shape0 a \<and> shape1 m = shape1 a)
              \<or> shape0 m * shape1 m = 1
              \<or> shape0 m * shape1 m = shape0 a * shape1 a
           then (Inr (MaskedArray vis vis_mask), h)
           else (Inl MaskError, h))
      | _ \<Rightarrow> (Inl TypeError, h))"

text \<open>\<open>vis.copy()\<close> allocates a new array with the same contents.\<close>

definition copy :: "heap \<Rightarrow> addr \<Rightarrow> (error + addr) \<times> heap" where
  "copy h p =
     (case lookup h p of
        Some (Vis a) \<Rightarrow> (Inr (length h), h @ [Vis a])
      | _ \<Rightarrow> (Inl TypeError, h))"

text \<open>The indexing operations on the array at an address; assignments write in place.\<close>

definition setitem_rows :: "heap \<Rightarrow> addr \<Rightarrow> nat list \<Rightarrow> complex128 \<Rightarrow> error option \<times> heap" where
  "setitem_rows h p ix v =
     (case lookup h p of
        Some (Vis a) \<Rightarrow>
          (case set_rows a ix v of
             Inl e \<Rightarrow> (Some e, h)
           | Inr a' \<Rightarrow> (None, h[p := Vis a']))
      | _ \<Rightarrow> (Some TypeError, h))"

definition getitem_col :: "heap \<Rightarrow> addr \<Rightarrow> nat list \<Rightarrow> nat \<Rightarrow> error + complex128 list" where
  "getitem_col h p ix fi =
     (case lookup h p of
        Some (Vis a) \<Rightarrow> get_col a ix fi
      | _ \<Rightarrow> Inl TypeError)"

definition setitem_col :: "heap \<Rightarrow> addr \<Rightarrow> nat list \<Rightarrow> nat \<Rightarrow> complex128 list \<Rightarrow> error option \<times> heap" where
  "setitem_col h p ix fi vs =
     (case lookup h p of
        Some (Vis a) \<Rightarrow>
          (case set_col a ix fi vs of
             Inl e \<Rightarrow> (Some e, h)
           | Inr a' \<Rightarrow> (None, h[p := Vis a']))
      | _ \<Rightarrow> (Some TypeError, h))"

definition shape1_at :: "heap \<Rightarrow> addr \<Rightarrow> nat" where
  "shape1_at h p = (case lookup h p of Some (Vis a) \<Rightarrow> shape1 a | _ \<Rightarrow> 0)"

subsection \<open>The interpolation loop and the computation of \<open>vis1\<close>\<close>

text \<open>
  The loop \<open>for fi in xrange(vis1.shape[1])\<close>: each pass reads the column \<open>fi\<close> of
  \<open>vis1\<close> at the indices \<open>off\<close> twice, builds the interpolants of its real and imaginary
  parts, and writes their recombined values at the indices \<open>on\<close>. An exception ends the
  loop and leaves the heap as it is at that moment.
\<close>

fun interpolate_loop :: "spline \<Rightarrow> nat list \<Rightarrow> nat list \<Rightarrow> nat list \<Rightarrow> heap \<Rightarrow> addr \<Rightarrow> error option \<times> heap" where
  "interpolate_loop itp on off [] h vis1 = (None, h)"
| "interpolate_loop itp on off (fi # fis) h vis1 =
     (case getitem_col h vis1 off fi of
        Inl e \<Rightarrow> (Some e, h)
      | Inr ys_real \<Rightarrow>
          (case itp off (map creal ys_real) of
             Inl e \<Rightarrow> (Some e, h)
           | Inr itp_real \<Rightarrow>
               (case getitem_col h vis1 off fi of
                  Inl e \<Rightarrow> (Some e, h)
                | Inr ys_imag \<Rightarrow>
                    (case itp off (map cimag ys_imag) of
                       Inl e \<Rightarrow> (Some e, h)
                     | Inr itp_imag \<Rightarrow>
                         (case setitem_col h vis1 on fi
                                 (map (\<lambda>t. recombine (itp_real t) (itp_imag t)) on) of
                            (Some e, h') \<Rightarrow> (Some e, h')
                          | (None, h') \<Rightarrow> interpolate_loop itp on off fis h' vis1)))))"

text \<open>Lines 124 to 141 of the file: the value of \<open>vis1\<close> and the heap after them.\<close>

definition plot_vis1 ::
  "spline \<Rightarrow> params \<Rightarrow> timestream \<Rightarrow> heap \<Rightarrow> addr \<Rightarrow> addr \<Rightarrow> (error + vis1) \<times> heap" where
  "plot_vis1 itp params ts h vis vis_mask =
     (if flag_mask params then ma_array h vis vis_mask
      else if flag_ns params then
        (case ts ''ns_on'' of
           Some ns_on \<Rightarrow>
             (case copy h vis of
                (Inl e, h1) \<Rightarrow> (Inl e, h1)
              | (Inr vis1, h1) \<Rightarrow>
                  (let on = where_ix ns_on in
                   if \<not> interpolate_ns params then
                     (case setitem_rows h1 vis1 on nan_nan of
                        (Some e, h2) \<Rightarrow> (Inl e, h2)
                      | (None, h2) \<Rightarrow> (Inr (Array vis1), h2))
                   else
                     (let off = where_ix (map Not ns_on) in
                      case interpolate_loop itp on off [0..<shape1_at h1 vis1] h1 vis1 of
                        (Some e, h2) \<Rightarrow> (Inl e, h2)
                      | (None, h2) \<Rightarrow> (Inr (Array vis1), h2))))
         | None \<Rightarrow> (Inr (Array vis), h))
      else (Inr (Array vis), h))"

subsection \<open>Notions used to state the properties\<close>

text \<open>
  The samples of channel \<open>fi\<close> at the time indices \<open>ix\<close>; the first exception that the
  interpolator raises when the channels \<open>fis\<close> of an array are handed to it in order; and
  the recombined value of the two interpolants of a channel at a time index.
\<close>

definition column :: "'a ndarray \<Rightarrow> nat list \<Rightarrow> nat \<Rightarrow> 'a list" where
  "column a ix fi = map (\<lambda>i. rows a ! i ! fi) ix"

fun first_error :: "spline \<Rightarrow> nat list \<Rightarrow> complex128 ndarray \<Rightarrow> nat list \<Rightarrow> error option" where
  "first_error itp off a [] = None"
| "first_error itp off a (fi # fis) =
     (case itp off (map creal (column a off fi)) of
        Inl e \<Rightarrow> Some e
      | Inr itp_real \<Rightarrow>
          (case itp off (map cimag (column a off fi)) of
             Inl e \<Rightarrow> Some e
           | Inr itp_imag \<Rightarrow> first_error itp off a fis))"

definition interpolated :: "spline \<Rightarrow> nat list \<Rightarrow> complex128 ndarray \<Rightarrow> nat \<Rightarrow> nat \<Rightarrow> complex128" where
  "interpolated itp off a fi t =
     recombine (projr (itp off (map creal (column a off fi))) t)
               (projr (itp off (map cimag (column a off fi))) t)"

text \<open>
  The error that the specification names for too few samples. No exception of this name
  occurs in the code; an exception of this name could only come out of a library call.
\<close>

definition InsufficientSamples :: error where
  "InsufficientSamples = LibraryError ''InsufficientSamples''"

subsection \<open>Concrete data\<close>

text \<open>
  An interpolator on which the model can be run. Like FITPACK for degree three it raises
  when given three points or fewer; otherwise it evaluates the polynomial through the
  points (in Lagrange form), and gives not-a-number when an ordinate is not-a-number.
  It stands for the parameter in the examples only.
\<close>

definition lagrange :: "real list \<Rightarrow> real list \<Rightarrow> real \<Rightarrow> real" where
  "lagrange xs ys t =
     sum_list (map2 (\<lambda>xi yi. yi * prod_list (map (\<lambda>xj. (t - xj) / (xi - xj)) (filter (\<lambda>xj. xj \<noteq> xi) xs))) xs ys)"

fun the_fin :: "pyfloat \<Rightarrow> real" where
  "the_fin (Fin r) = r"
| "the_fin NaN = 0"

fun is_fin :: "pyfloat \<Rightarrow> bool" where
  "is_fin (Fin r) = True"
| "is_fin NaN = False"

definition example_spline :: spline where
  "example_spline xs ys =
     (if length xs \<le> 3 then Inl (LibraryError ''dfitpack.error'')
      else Inr (\<lambda>t. if list_all is_fin ys
                     then Fin (lagrange (map real xs) (map the_fin ys) (real t))
                     else NaN))"

text \<open>
  Six time samples of two channels. The noise source is on at the time indices 0 and 3,
  where the input holds other values than the ramps that the remaining samples follow;
  \<open>interp0\<close> is the array with the ramps at all six time indices.
\<close>

definition cplx :: "real \<Rightarrow> real \<Rightarrow> complex128" where
  "cplx x y = Complex128 (Fin x) (Fin y)"

definition vis0 :: "complex128 ndarray" where
  "vis0 = NdArray 2
     [[cplx 100 (- 100), cplx 0 0],
      [cplx 1 2, cplx 7 (- 1)],
      [cplx 2 4, cplx 7 (- 2)],
      [cplx 50 50, cplx 50 50],
      [cplx 4 8, cplx 7 (- 4)],
      [cplx 5 10, cplx 7 (- 5)]]"

definition interp0 :: "complex128 ndarray" where
  "interp0 = NdArray 2
     [[cplx 0 0, cplx 7 0],
      [cplx 1 2, cplx 7 (- 1)],
      [cplx 2 4, cplx 7 (- 2)],
      [cplx 3 6, cplx 7 (- 3)],
      [cplx 4 8, cplx 7 (- 4)],
      [cplx 5 10, cplx 7 (- 5)]]"

definition mask0 :: "bool ndarray" where
  "mask0 = NdArray 2 (replicate 6 [False, False])"

definition heap0 :: heap where
  "heap0 = [Vis vis0, Mask mask0]"

definition ns_on0 :: "bool list" where
  "ns_on0 = [True, False, False, True, False, False]"

definition ts0 :: timestream where
  "ts0 = [''ns_on'' \<mapsto> ns_on0]"

text \<open>Four time samples of one channel, three of them with the noise source off.\<close>

definition vis_few :: "complex128 ndarray" where
  "vis_few = NdArray 1 [[cplx 9 9], [cplx 1 1], [cplx 2 2], [cplx 3 3]]"

definition heap_few :: heap where
  "heap_few = [Vis vis_few, Mask (NdArray 1 (replicate 4 [False]))]"

definition ns_few :: "bool list" where
  "ns_few = [True, False, False, False]"

definition ts_few :: timestream where
  "ts_few = [''ns_on'' \<mapsto> ns_few]"

section \<open>Properties of the beam model\<close>

lemma abs_sinc_le_1: "\<bar>sinc x\<bar> \<le> 1"
proof (cases "x = 0")
  case True
  then show ?thesis by (simp add: sinc_def)
next
  case False
  have "\<bar>sin (pi * x)\<bar> \<le> \<bar>pi * x\<bar>" by (rule abs_sin_x_le_abs_x)
  moreover have "0 < \<bar>pi * x\<bar>" using False by simp
  ultimately have "\<bar>sin (pi * x)\<bar> / \<bar>pi * x\<bar> \<le> 1" by (simp add: divide_le_eq_1)
  moreover have "\<bar>sinc x\<bar> = \<bar>sin (pi * x)\<bar> / \<bar>pi * x\<bar>"
    using False by (simp add: sinc_def)
  ultimately show ?thesis by simp
qed

lemma broadcast_same: "length xs = length ys \<Longrightarrow> broadcast f xs ys = Inr (map2 f xs ys)"
  by (simp add: broadcast_def)

lemma broadcast_left1: "broadcast f [x] ys = Inr (map (f x) ys)"
  by (cases ys rule: list.exhaust; cases "tl ys") (auto simp: broadcast_def)

lemma broadcast_right1: "broadcast f xs [y] = Inr (map (\<lambda>x. f x y) xs)"
  by (cases xs; cases "tl xs") (auto simp: broadcast_def)

lemma broadcast_elems:
  assumes "broadcast f xs ys = Inr zs" and "z \<in> set zs"
  shows "\<exists>x\<in>set xs. \<exists>y\<in>set ys. z = f x y"
proof -
  consider (same) "length xs = length ys"
    | (l1) "length xs \<noteq> length ys" "length xs = 1"
    | (r1) "length xs \<noteq> length ys" "length xs \<noteq> 1" "length ys = 1"
    using assms(1) by (auto simp: broadcast_def split: if_splits)
  then show ?thesis
  proof cases
    case same
    then have "zs = map2 f xs ys" using assms(1) by (simp add: broadcast_def)
    then obtain a b where "(a, b) \<in> set (zip xs ys)" "z = f a b"
      using assms(2) by auto
    moreover from this have "a \<in> set xs" "b \<in> set ys"
      by (auto dest: set_zip_leftD set_zip_rightD)
    ultimately show ?thesis by blast
  next
    case l1
    then obtain x where xs: "xs = [x]" by (cases xs) auto
    then have "zs = map (f x) ys" using assms(1) l1 by (simp add: broadcast_def)
    then show ?thesis using assms(2) xs by auto
  next
    case r1
    then obtain y where ys: "ys = [y]" by (cases ys) auto
    then have "zs = map (\<lambda>x. f x y) xs" using assms(1) r1 by (simp add: broadcast_def)
    then show ?thesis using assms(2) ys by auto
  qed
qed

lemma map2_same: "map2 f (map g xs) (map h xs) = map (\<lambda>x. f (g x) (h x)) xs"
  by (induction xs) simp_all

lemma broadcast_maps: "broadcast f (map g xs) (map h xs) = Inr (map (\<lambda>x. f (g x) (h x)) xs)"
  by (simp add: broadcast_same map2_same)

lemma wavelength_to_GHz: "wavelength c (to_GHz fs) = map (\<lambda>f. c / (10 ^ 6 * f)) fs"
  by (simp add: wavelength_def to_GHz_def)

lemma response_Single:
  "response c (CylinderBeam fs W L) (Single (x, y, z)) =
     Inr [map (\<lambda>f. sinc (W * x / (c / (10 ^ 6 * f))) * sinc (factor * y / (c / (10 ^ 6 * f)))
                    * (if 0 < z then z else 0)) fs]"
proof -
  let ?lm = "map (\<lambda>f. c / (10 ^ 6 * f)) fs"
  have su: "broadcast (\<lambda>u l. sinc (W * u / l)) [x] ?lm = Inr (map (\<lambda>l. sinc (W * x / l)) ?lm)"
    by (rule broadcast_left1)
  have sv: "broadcast (\<lambda>v l. sinc (factor * v / l)) [y] ?lm
              = Inr (map (\<lambda>l. sinc (factor * y / l)) ?lm)"
    by (rule broadcast_left1)
  have p: "broadcast (*) (map (\<lambda>l. sinc (W * x / l)) ?lm) (map (\<lambda>l. sinc (factor * y / l)) ?lm)
             = Inr (map (\<lambda>l. sinc (W * x / l) * sinc (factor * y / l)) ?lm)"
    by (rule broadcast_maps)
  have r: "broadcast (*) (map (\<lambda>l. sinc (W * x / l) * sinc (factor * y / l)) ?lm)
             [if z \<le> 0 then 0 else z]
           = Inr (map (\<lambda>v. v * (if z \<le> 0 then 0 else z))
                    (map (\<lambda>l. sinc (W * x / l) * sinc (factor * y / l)) ?lm))"
    by (rule broadcast_right1)
  have "response c (CylinderBeam fs W L) (Single (x, y, z))
          = Inr [map (\<lambda>v. v * (if z \<le> 0 then 0 else z))
                    (map (\<lambda>l. sinc (W * x / l) * sinc (factor * y / l)) ?lm)]"
    unfolding response_def CylinderBeam_def Let_def
    by (simp only: cylinder_beam.simps wavelength_to_GHz directions.simps list.map dot.simps
          mult_zero_right mult_1_right add_0_right add_0_left su sv p r sum.case)
  also have "\<dots> = Inr [map (\<lambda>f. sinc (W * x / (c / (10 ^ 6 * f))) * sinc (factor * y / (c / (10 ^ 6 * f)))
                    * (if 0 < z then z else 0)) fs]"
    by (simp add: o_def not_less)
  finally show ?thesis .
qed

lemma response_Multiple1:
  "response c (CylinderBeam [f] W L) (Multiple ns) =
     Inr [map (\<lambda>n. sinc (W * dot n (1, 0, 0) / (c / (10 ^ 6 * f)))
                  * sinc (factor * dot n (0, 1, 0) / (c / (10 ^ 6 * f)))
                  * (if dot n (0, 0, 1) \<le> 0 then 0 else dot n (0, 0, 1))) ns]"
proof -
  let ?l = "c / (10 ^ 6 * f)"
  have su: "broadcast (\<lambda>u l. sinc (W * u / l)) (map (\<lambda>n. dot n (1, 0, 0)) ns) [?l]
              = Inr (map (\<lambda>n. sinc (W * dot n (1, 0, 0) / ?l)) ns)"
    by (simp only: broadcast_right1 map_map o_def)
  have sv: "broadcast (\<lambda>v l. sinc (factor * v / l)) (map (\<lambda>n. dot n (0, 1, 0)) ns) [?l]
              = Inr (map (\<lambda>n. sinc (factor * dot n (0, 1, 0) / ?l)) ns)"
    by (simp only: broadcast_right1 map_map o_def)
  have p: "broadcast (*) (map (\<lambda>n. sinc (W * dot n (1, 0, 0) / ?l)) ns)
              (map (\<lambda>n. sinc (factor * dot n (0, 1, 0) / ?l)) ns)
             = Inr (map (\<lambda>n. sinc (W * dot n (1, 0, 0) / ?l) * sinc (factor * dot n (0, 1, 0) / ?l)) ns)"
    by (rule broadcast_maps)
  have nz: "map (\<lambda>z. if z \<le> 0 then 0 else z) (map (\<lambda>n. dot n (0, 0, 1)) ns)
              = map (\<lambda>n. if dot n (0, 0, 1) \<le> 0 then 0 else dot n (0, 0, 1)) ns"
    by (simp only: map_map o_def)
  have r: "broadcast (*)
             (map (\<lambda>n. sinc (W * dot n (1, 0, 0) / ?l) * sinc (factor * dot n (0, 1, 0) / ?l)) ns)
             (map (\<lambda>n. if dot n (0, 0, 1) \<le> 0 then 0 else dot n (0, 0, 1)) ns)
           = Inr (map (\<lambda>n. sinc (W * dot n (1, 0, 0) / ?l) * sinc (factor * dot n (0, 1, 0) / ?l)
                          * (if dot n (0, 0, 1) \<le> 0 then 0 else dot n (0, 0, 1))) ns)"
    by (rule broadcast_maps)
  show ?thesis
    unfolding response_def CylinderBeam_def Let_def
    by (simp only: cylinder_beam.simps wavelength_to_GHz directions.simps list.map nz su sv p r sum.case)
qed

text \<open>
  Where the closed form holds. For one direction \<open>n = (x, y, z)\<close> and the configured
  frequencies \<open>fs\<close>, \<open>CylinderBeam.response\<close> returns, for every frequency \<open>f\<close>, the
  product \<open>sinc (Wd * x / lam) * sinc (eps * y / lam) * nz'\<close> with \<open>lam = c / (f in Hz)\<close>,
  \<open>eps = 1e-60\<close> and \<open>nz'\<close> equal to \<open>z\<close> when \<open>0 < z\<close> and to \<open>0\<close> otherwise; the same
  holds for every direction of a list of directions at one configured frequency. In these
  two cases the response is \<open>0\<close> at every frequency when \<open>z \<le> 0\<close>.
\<close>

theorem response_formula:
  "response c (CylinderBeam fs Wd L) (Single n) = Inr [map (\<lambda>f. spec_response c Wd f n) fs]
   \<and> response c (CylinderBeam [f] Wd L) (Multiple ns) = Inr [map (spec_response c Wd f) ns]
   \<and> (snd (snd n) \<le> 0 \<longrightarrow> response c (CylinderBeam fs Wd L) (Single n) = Inr [map (\<lambda>f. 0) fs])
   \<and> (list_all (\<lambda>n. snd (snd n) \<le> 0) ns \<longrightarrow>
        response c (CylinderBeam [f] Wd L) (Multiple ns) = Inr [map (\<lambda>n. 0) ns])"
proof -
  obtain x y z where n: "n = (x, y, z)" by (cases n)
  have single: "response c (CylinderBeam fs Wd L) (Single n) = Inr [map (\<lambda>f. spec_response c Wd f n) fs]"
    unfolding n response_Single by (simp add: factor_def mult.commute)
  have multiple: "response c (CylinderBeam [f] Wd L) (Multiple ns) = Inr [map (spec_response c Wd f) ns]"
    unfolding response_Multiple1
  proof (simp only: sum.inject list.inject simp_thms, rule map_cong [OF refl])
    fix m :: vec3
    obtain a b d where m: "m = (a, b, d)" by (cases m)
    show "sinc (Wd * dot m (1, 0, 0) / (c / (10 ^ 6 * f)))
            * sinc (factor * dot m (0, 1, 0) / (c / (10 ^ 6 * f)))
            * (if dot m (0, 0, 1) \<le> 0 then 0 else dot m (0, 0, 1)) = spec_response c Wd f m"
      unfolding m by (simp add: factor_def mult.commute not_less)
  qed
  have zero1: "snd (snd n) \<le> 0 \<Longrightarrow> map (\<lambda>f. spec_response c Wd f n) fs = map (\<lambda>f. 0) fs"
    unfolding n by simp
  have zero2: "list_all (\<lambda>n. snd (snd n) \<le> 0) ns \<Longrightarrow> map (spec_response c Wd f) ns = map (\<lambda>n. 0) ns"
    by (rule map_cong [OF refl]) (auto simp: list_all_iff)
  show ?thesis using single multiple zero1 zero2 by simp
qed

theorem response_formula_witness:
  "snd (snd (1/2, 0, - (1/2) :: real)) \<le> 0
   \<and> response 299792458 (CylinderBeam [700, 750, 800] 15 40) (Single (1/2, 0, - (1/2))) = Inr [[0, 0, 0]]
   \<and> list_all (\<lambda>n. snd (snd n) \<le> 0) [(1, 0, 0), (0, 0, - 1 :: real)]
   \<and> response 299792458 (CylinderBeam [750] 15 40) (Multiple [(1, 0, 0), (0, 0, - 1)]) = Inr [[0, 0]]"
  using response_formula [where n = "(1/2, 0, - (1/2))" and c = 299792458 and fs = "[700, 750, 800]"
      and Wd = 15 and L = 40 and f = 750 and ns = "[(1, 0, 0), (0, 0, - 1)]"]
  by simp

text \<open>
  Claim C1. For every direction vector and every configured frequency,
  \<open>CylinderBeam.response\<close> returns the closed form \<open>spec_response\<close>, and so \<open>0\<close> at every
  configured frequency for a direction with \<open>z \<le> 0\<close>. The docstring allows several
  directions in one call (\<open>xyz\<close> may be arrays of multiple coordinates), and the
  frequencies are the whole active band. The code does not return a value for every pair
  of a direction and a frequency then: it broadcasts the projections, of shape \<open>(M,)\<close>,
  against the wavelengths, of shape \<open>(1, N)\<close>. With two directions and three frequencies
  the call raises \<open>ValueError\<close>, also when a direction lies below the horizon; with two
  directions and two frequencies it returns one row of two entries, the first direction
  at the first frequency and the second direction at the second frequency.
\<close>

theorem response_several_directions_several_frequencies:
  "response 299792458 (CylinderBeam [700, 750, 800] 15 40) (Multiple [(0, 0, 1), (1, 0, 0)])
     = Inl ValueError
   \<and> response 299792458 (CylinderBeam [700, 750, 800] 15 40) (Multiple [(0, 0, - 1), (1, 0, 0)])
     = Inl ValueError
   \<and> response 299792458 (CylinderBeam [700, 750] 15 40) (Multiple [(0, 0, 1), (1, 0, 0)])
     = Inr [[spec_response 299792458 15 700 (0, 0, 1), spec_response 299792458 15 750 (1, 0, 0)]]"
proof (intro conjI)
  show "response 299792458 (CylinderBeam [700, 750, 800] 15 40) (Multiple [(0, 0, 1), (1, 0, 0)])
     = Inl ValueError"
    by (simp add: response_def CylinderBeam_def to_GHz_def wavelength_def broadcast_def)
  show "response 299792458 (CylinderBeam [700, 750, 800] 15 40) (Multiple [(0, 0, - 1), (1, 0, 0)])
     = Inl ValueError"
    by (simp add: response_def CylinderBeam_def to_GHz_def wavelength_def broadcast_def)
  show "response 299792458 (CylinderBeam [700, 750] 15 40) (Multiple [(0, 0, 1), (1, 0, 0)])
     = Inr [[spec_response 299792458 15 700 (0, 0, 1), spec_response 299792458 15 750 (1, 0, 0)]]"
    by (simp add: response_def CylinderBeam_def to_GHz_def wavelength_def broadcast_def factor_def)
qed

lemma masked_nz_range:
  assumes "unit_vector n"
  shows "0 \<le> (if dot n (0, 0, 1) \<le> 0 then 0 else dot n (0, 0, 1))
         \<and> (if dot n (0, 0, 1) \<le> 0 then 0 else dot n (0, 0, 1)) \<le> 1"
proof -
  obtain x y z where n: "n = (x, y, z)" by (cases n)
  have "x\<^sup>2 + y\<^sup>2 + z\<^sup>2 = 1" using assms unfolding n by simp
  then have "z\<^sup>2 \<le> 1" using zero_le_power2 [of x] zero_le_power2 [of y] by linarith
  then have "\<bar>z\<bar> \<le> \<bar>1\<bar>" using abs_le_square_iff [of z 1] by simp
  then have "z \<le> 1" by simp
  then show ?thesis unfolding n by simp
qed

lemma abs_triple_le_1:
  fixes a b d :: real
  assumes "\<bar>a\<bar> \<le> 1" and "\<bar>b\<bar> \<le> 1" and "0 \<le> d" and "d \<le> 1"
  shows "\<bar>a * b * d\<bar> \<le> 1"
proof -
  have "\<bar>a\<bar> * \<bar>b\<bar> \<le> 1 * 1"
    by (rule mult_mono) (use assms in simp_all)
  then have "\<bar>a\<bar> * \<bar>b\<bar> * d \<le> 1 * 1"
    by (intro mult_mono) (use assms in simp_all)
  then show ?thesis using assms(3) by (simp add: abs_mult)
qed

lemma response_entries_bounded:
  assumes "response c self xyz = Inr res"
    and "list_all unit_vector (directions xyz)"
    and "row \<in> set res" and "v \<in> set row"
  shows "\<bar>v\<bar> \<le> 1"
proof -
  let ?ds = "directions xyz"
  let ?lm = "wavelength c (freqs self)"
  let ?nz = "map (\<lambda>z. if z \<le> 0 then 0 else z) (map (\<lambda>n. dot n (0, 0, 1)) ?ds)"
  from assms(1) obtain su sv p r where
    su: "broadcast (\<lambda>u l. sinc (width self * u / l)) (map (\<lambda>n. dot n (1, 0, 0)) ?ds) ?lm = Inr su"
    and sv: "broadcast (\<lambda>v l. sinc (factor * v / l)) (map (\<lambda>n. dot n (0, 1, 0)) ?ds) ?lm = Inr sv"
    and p: "broadcast (*) su sv = Inr p"
    and r: "broadcast (*) p ?nz = Inr r"
    and res: "res = [r]"
    unfolding response_def Let_def by (auto split: sum.splits)
  from res assms(3,4) have "v \<in> set r" by simp
  from broadcast_elems [OF r this] obtain pe ze where
    pe: "pe \<in> set p" and ze: "ze \<in> set ?nz" and v: "v = pe * ze" by blast
  from broadcast_elems [OF p pe] obtain a b where
    a: "a \<in> set su" and b: "b \<in> set sv" and pe_eq: "pe = a * b" by blast
  from broadcast_elems [OF su a] have "\<exists>t. a = sinc t" by blast
  then have a1: "\<bar>a\<bar> \<le> 1" using abs_sinc_le_1 by auto
  from broadcast_elems [OF sv b] have "\<exists>t. b = sinc t" by blast
  then have b1: "\<bar>b\<bar> \<le> 1" using abs_sinc_le_1 by auto
  from ze obtain n where n: "n \<in> set ?ds"
    and ze_eq: "ze = (if dot n (0, 0, 1) \<le> 0 then 0 else dot n (0, 0, 1))" by auto
  from n assms(2) have "unit_vector n" by (simp add: list_all_iff)
  from masked_nz_range [OF this] have "0 \<le> ze" "ze \<le> 1" unfolding ze_eq by simp_all
  with a1 b1 show ?thesis unfolding v pe_eq by (rule abs_triple_le_1)
qed

text \<open>
  Claim C9. For a unit direction vector and every configured frequency the magnitude of
  \<open>CylinderBeam.response\<close> is at most \<open>1\<close>: for one direction the call returns a row
  with one entry per frequency, each of magnitude at most \<open>1\<close>, and whenever a call with
  unit directions returns, every entry of the result has magnitude at most \<open>1\<close>.
\<close>

theorem response_bounded:
  "(unit_vector n \<longrightarrow>
      (\<exists>row. response c (CylinderBeam fs Wd L) (Single n) = Inr [row]
           \<and> length row = length fs \<and> (\<forall>v\<in>set row. \<bar>v\<bar> \<le> 1)))
   \<and> (list_all unit_vector (directions xyz) \<and> response c self xyz = Inr res \<longrightarrow>
      (\<forall>row\<in>set res. \<forall>v\<in>set row. \<bar>v\<bar> \<le> 1))"
proof (intro conjI impI)
  assume u: "unit_vector n"
  obtain x y z where n: "n = (x, y, z)" by (cases n)
  let ?row = "map (\<lambda>f. sinc (Wd * x / (c / (10 ^ 6 * f))) * sinc (factor * y / (c / (10 ^ 6 * f)))
                    * (if 0 < z then z else 0)) fs"
  have eq: "response c (CylinderBeam fs Wd L) (Single n) = Inr [?row]"
    unfolding n by (rule response_Single)
  have "\<forall>v\<in>set ?row. \<bar>v\<bar> \<le> 1"
    using response_entries_bounded [OF eq, of ?row] u by simp
  with eq show "\<exists>row. response c (CylinderBeam fs Wd L) (Single n) = Inr [row]
           \<and> length row = length fs \<and> (\<forall>v\<in>set row. \<bar>v\<bar> \<le> 1)"
    by (intro exI [of _ ?row]) simp
next
  assume "list_all unit_vector (directions xyz) \<and> response c self xyz = Inr res"
  then show "\<forall>row\<in>set res. \<forall>v\<in>set row. \<bar>v\<bar> \<le> 1"
    using response_entries_bounded by blast
qed

theorem response_bounded_witness:
  "unit_vector (3/5, 0, 4/5)
   \<and> (\<exists>row. response 299792458 (CylinderBeam [700, 750, 800] 15 40) (Single (3/5, 0, 4/5)) = Inr [row]
          \<and> length row = 3 \<and> \<bar>row ! 1\<bar> \<le> 1)
   \<and> list_all unit_vector (directions (Multiple [(0, 0, 1), (1, 0, 0)]))
   \<and> response 299792458 (CylinderBeam [750] 15 40) (Multiple [(0, 0, 1), (1, 0, 0)])
        = Inr [[spec_response 299792458 15 750 (0, 0, 1), spec_response 299792458 15 750 (1, 0, 0)]]
   \<and> \<bar>spec_response 299792458 15 750 (0, 0, 1)\<bar> \<le> 1"
proof -
  have u: "unit_vector (3/5, 0, 4/5)" by (simp add: power2_eq_square)
  have us: "list_all unit_vector (directions (Multiple [(0, 0, 1), (1, 0, 0)]))" by simp
  have m: "response 299792458 (CylinderBeam [750] 15 40) (Multiple [(0, 0, 1), (1, 0, 0)])
        = Inr [[spec_response 299792458 15 750 (0, 0, 1), spec_response 299792458 15 750 (1, 0, 0)]]"
    unfolding response_Multiple1 by (simp add: factor_def)
  from response_bounded [of "(3/5, 0, 4/5)" 299792458 "[700, 750, 800]" 15 40
        "Multiple [(0, 0, 1), (1, 0, 0)]" "CylinderBeam [750] 15 40"
        "[[spec_response 299792458 15 750 (0, 0, 1), spec_response 299792458 15 750 (1, 0, 0)]]"]
  have a: "\<exists>row. response 299792458 (CylinderBeam [700, 750, 800] 15 40) (Single (3/5, 0, 4/5)) = Inr [row]
          \<and> length row = length [700, 750, 800 :: real] \<and> (\<forall>v\<in>set row. \<bar>v\<bar> \<le> 1)"
    and b: "\<forall>row\<in>set [[spec_response 299792458 15 750 (0, 0, 1), spec_response 299792458 15 750 (1, 0, 0)]].
              \<forall>v\<in>set row. \<bar>v\<bar> \<le> 1"
    using u us m by blast+
  from a obtain row where row: "response 299792458 (CylinderBeam [700, 750, 800] 15 40) (Single (3/5, 0, 4/5)) = Inr [row]"
    "length row = 3" "\<forall>v\<in>set row. \<bar>v\<bar> \<le> 1" by auto
  then have "\<bar>row ! 1\<bar> \<le> 1" by (simp add: all_set_conv_all_nth)
  with row have a': "\<exists>row. response 299792458 (CylinderBeam [700, 750, 800] 15 40) (Single (3/5, 0, 4/5)) = Inr [row]
          \<and> length row = 3 \<and> \<bar>row ! 1\<bar> \<le> 1" by blast
  from b have b': "\<bar>spec_response 299792458 15 750 (0, 0, 1)\<bar> \<le> 1" by simp
  show ?thesis using u a' us m b' by blast
qed

section \<open>Properties of the dish beam\<close>

text \<open>
  Claim C8. \<open>DsihBeam\<close> computes for every configured frequency the half-width
  \<open>1.22 * lambda / diameter\<close> and uses it for both axes (\<open>xwidth = ywidth\<close>). For the
  frequencies 700, 750 and 800 MHz and a diameter of 6 m, with the speed of light between
  2.997e8 and 2.998e8 m/s, the wavelength at 750 MHz is within 0.001 of 0.4 m and the
  half-width is \<open>1.22 * lambda / 6\<close>, within 0.0001 of 0.0813.
\<close>

theorem DsihBeam_widths:
  "xwidth (DsihBeam c fs D) = ywidth (DsihBeam c fs D)
   \<and> xwidth (DsihBeam c fs D) = map (\<lambda>f. 1.22 * (c / (f * 10 ^ 6)) / D) fs
   \<and> (299700000 \<le> c \<and> c \<le> 299800000 \<longrightarrow>
        (let lam = wavelength c (to_GHz [700, 750, 800]) ! 1;
             w = xwidth (DsihBeam c [700, 750, 800] 6) ! 1
         in \<bar>lam - 0.4\<bar> < 0.001 \<and> w = 1.22 * lam / 6 \<and> \<bar>w - 0.0813\<bar> < 0.0001))"
proof (intro conjI impI)
  show "xwidth (DsihBeam c fs D) = ywidth (DsihBeam c fs D)"
    by (simp add: DsihBeam_def Let_def)
  show "xwidth (DsihBeam c fs D) = map (\<lambda>f. 1.22 * (c / (f * 10 ^ 6)) / D) fs"
    by (simp add: DsihBeam_def Let_def wavelength_to_GHz o_def mult.commute)
  assume c: "299700000 \<le> c \<and> c \<le> 299800000"
  have lam: "wavelength c (to_GHz [700, 750, 800]) ! 1 = c / 750000000"
    by (simp add: wavelength_to_GHz)
  have w: "xwidth (DsihBeam c [700, 750, 800] 6) ! 1 = 1.22 * (c / 750000000) / 6"
    by (simp add: DsihBeam_def Let_def wavelength_to_GHz)
  have "\<bar>c / 750000000 - 0.4\<bar> < 0.001" using c by (simp add: abs_less_iff field_simps)
  moreover have "\<bar>1.22 * (c / 750000000) / 6 - 0.0813\<bar> < 0.0001"
    using c by (simp add: abs_less_iff field_simps)
  ultimately show "let lam = wavelength c (to_GHz [700, 750, 800]) ! 1;
             w = xwidth (DsihBeam c [700, 750, 800] 6) ! 1
         in \<bar>lam - 0.4\<bar> < 0.001 \<and> w = 1.22 * lam / 6 \<and> \<bar>w - 0.0813\<bar> < 0.0001"
    unfolding Let_def lam w by simp
qed

theorem DsihBeam_widths_witness:
  "(299700000::real) \<le> 299792458 \<and> (299792458::real) \<le> 299800000
   \<and> \<bar>wavelength 299792458 (to_GHz [700, 750, 800]) ! 1 - 0.4\<bar> < 0.001
   \<and> \<bar>xwidth (DsihBeam 299792458 [700, 750, 800] 6) ! 1 - 0.0813\<bar> < 0.0001
   \<and> xwidth (DsihBeam 299792458 [700, 750, 800] 6) = ywidth (DsihBeam 299792458 [700, 750, 800] 6)"
proof -
  have c: "(299700000::real) \<le> 299792458 \<and> (299792458::real) \<le> 299800000" by simp
  from DsihBeam_widths [of 299792458 "[700, 750, 800]" 6] c
  have "xwidth (DsihBeam 299792458 [700, 750, 800] 6) = ywidth (DsihBeam 299792458 [700, 750, 800] 6)"
    and "let lam = wavelength 299792458 (to_GHz [700, 750, 800]) ! 1;
             w = xwidth (DsihBeam 299792458 [700, 750, 800] 6) ! 1
         in \<bar>lam - 0.4\<bar> < 0.001 \<and> w = 1.22 * lam / 6 \<and> \<bar>w - 0.0813\<bar> < 0.0001"
    by blast+
  then show ?thesis using c unfolding Let_def by blast
qed

section \<open>Properties of the visibility conditioning\<close>

subsection \<open>Lists of indices and updates of rows\<close>

lemma recombine_Fin: "recombine (Fin x) (Fin y) = Complex128 (Fin x) (Fin y)"
  by (simp add: recombine_def of_float_def one_J_def)

lemma set_where_ix: "set (where_ix bs) = {i. i < length bs \<and> bs ! i}"
  by (auto simp: where_ix_def)

lemma set_where_ix_Not: "set (where_ix (map Not bs)) = {i. i < length bs \<and> \<not> bs ! i}"
  by (auto simp: where_ix_def)

lemma on_off_disjoint: "set (where_ix bs) \<inter> set (where_ix (map Not bs)) = {}"
  by (auto simp: set_where_ix set_where_ix_Not)

lemma where_ix_in_range: "length bs \<le> n \<Longrightarrow> list_all (\<lambda>i. i < n) (where_ix bs)"
  by (auto simp: list_all_iff set_where_ix)

lemma lookup_Some: "lookup h p = Some x \<longleftrightarrow> p < length h \<and> h ! p = x"
  by (auto simp: lookup_def)

lemma lookup_update_id: "lookup h p = Some x \<Longrightarrow> h[p := x] = h"
  using list_update_id [of h p] by (auto simp: lookup_Some)

lemma length_fold_rows: "length (fold (\<lambda>i rs. rs[i := r]) ix rs) = length rs"
  by (induction ix arbitrary: rs) simp_all

lemma nth_fold_rows:
  "t < length rs \<Longrightarrow> fold (\<lambda>i rs. rs[i := r]) ix rs ! t = (if t \<in> set ix then r else rs ! t)"
proof (induction ix arbitrary: rs)
  case Nil
  then show ?case by simp
next
  case (Cons i ix)
  from Cons.prems have "t < length (rs[i := r])" by simp
  from Cons.IH [OF this] show ?case using Cons.prems by (auto simp: nth_list_update)
qed

lemma length_fold_col:
  "length (fold (\<lambda>(i, v) rs. rs[i := (rs ! i)[fi := v]]) ps rs) = length rs"
  by (induction ps arbitrary: rs) (simp_all add: case_prod_beta)

lemma nth_fold_col:
  "t < length rs \<Longrightarrow>
   fold (\<lambda>(i, v) rs. rs[i := (rs ! i)[fi := v]]) (zip ix (map g ix)) rs ! t
     = (if t \<in> set ix then (rs ! t)[fi := g t] else rs ! t)"
proof (induction ix arbitrary: rs)
  case Nil
  then show ?case by simp
next
  case (Cons i ix)
  let ?rs1 = "rs[i := (rs ! i)[fi := g i]]"
  from Cons.prems have "t < length ?rs1" by simp
  from Cons.IH [OF this]
  have "fold (\<lambda>(i, v) rs. rs[i := (rs ! i)[fi := v]]) (zip ix (map g ix)) ?rs1 ! t
          = (if t \<in> set ix then (?rs1 ! t)[fi := g t] else ?rs1 ! t)" .
  moreover have "t = i \<Longrightarrow> ?rs1 ! t = (rs ! t)[fi := g t]"
    using Cons.prems by simp
  moreover have "t \<noteq> i \<Longrightarrow> ?rs1 ! t = rs ! t"
    by simp
  ultimately show ?case by (cases "t = i") simp_all
qed

subsection \<open>The array operations\<close>

lemma well_shaped_nth: "well_shaped a \<Longrightarrow> t < shape0 a \<Longrightarrow> length (rows a ! t) = shape1 a"
  by (simp add: well_shaped_def shape0_def list_all_length)

lemma well_shapedI:
  "(\<And>t. t < length (rows a) \<Longrightarrow> length (rows a ! t) = shape1 a) \<Longrightarrow> well_shaped a"
  by (simp add: well_shaped_def list_all_length)

lemma ndarray_eqI:
  assumes "well_shaped a" and "well_shaped b"
    and "shape0 a = shape0 b" and "shape1 a = shape1 b"
    and "\<And>t j. t < shape0 a \<Longrightarrow> j < shape1 a \<Longrightarrow> rows a ! t ! j = rows b ! t ! j"
  shows "a = b"
proof -
  have "rows a = rows b"
  proof (rule nth_equalityI)
    show "length (rows a) = length (rows b)" using assms(3) by (simp add: shape0_def)
    fix t assume t: "t < length (rows a)"
    then have ta: "t < shape0 a" and tb: "t < shape0 b" using assms(3) by (simp_all add: shape0_def)
    show "rows a ! t = rows b ! t"
    proof (rule nth_equalityI)
      show "length (rows a ! t) = length (rows b ! t)"
        using well_shaped_nth [OF assms(1) ta] well_shaped_nth [OF assms(2) tb] assms(4) by simp
      fix j assume "j < length (rows a ! t)"
      then have "j < shape1 a" using well_shaped_nth [OF assms(1) ta] by simp
      with ta show "rows a ! t ! j = rows b ! t ! j" by (rule assms(5))
    qed
  qed
  with assms(4) show ?thesis by (simp add: ndarray.expand)
qed

lemma set_rows_props:
  assumes "list_all (\<lambda>i. i < shape0 a) ix" and "well_shaped a"
  shows "\<exists>a'. set_rows a ix v = Inr a' \<and> shape0 a' = shape0 a \<and> shape1 a' = shape1 a
           \<and> well_shaped a'
           \<and> (\<forall>t<shape0 a. \<forall>j<shape1 a.
                 rows a' ! t ! j = (if t \<in> set ix then v else rows a ! t ! j))"
proof -
  let ?rs = "fold (\<lambda>i rs. rs[i := replicate (shape1 a) v]) ix (rows a)"
  let ?a' = "NdArray (shape1 a) ?rs"
  have eq: "set_rows a ix v = Inr ?a'" using assms(1) by (simp add: set_rows_def)
  have len: "length ?rs = length (rows a)" by (rule length_fold_rows)
  have nth: "?rs ! t = (if t \<in> set ix then replicate (shape1 a) v else rows a ! t)"
    if "t < length (rows a)" for t
    using that by (rule nth_fold_rows)
  have ws: "well_shaped ?a'"
  proof (rule well_shapedI)
    fix t assume "t < length (rows ?a')"
    then have t: "t < length (rows a)" using len by simp
    then have "length (rows a ! t) = shape1 a"
      using well_shaped_nth [OF assms(2)] by (simp add: shape0_def)
    then show "length (rows ?a' ! t) = shape1 ?a'" using nth [OF t] by simp
  qed
  have "rows ?a' ! t ! j = (if t \<in> set ix then v else rows a ! t ! j)"
    if "t < shape0 a" "j < shape1 a" for t j
    using that nth [of t] by (simp add: shape0_def)
  with eq len ws show ?thesis by (intro exI [of _ ?a']) (simp add: shape0_def)
qed

lemma set_col_props:
  assumes "fi < shape1 a" and "list_all (\<lambda>i. i < shape0 a) ix" and "well_shaped a"
  shows "\<exists>a'. set_col a ix fi (map g ix) = Inr a' \<and> shape0 a' = shape0 a \<and> shape1 a' = shape1 a
           \<and> well_shaped a'
           \<and> (\<forall>t<shape0 a. rows a' ! t = (if t \<in> set ix then (rows a ! t)[fi := g t] else rows a ! t))"
proof -
  let ?rs = "fold (\<lambda>(i, v) rs. rs[i := (rs ! i)[fi := v]]) (zip ix (map g ix)) (rows a)"
  let ?a' = "NdArray (shape1 a) ?rs"
  have eq: "set_col a ix fi (map g ix) = Inr ?a'" using assms(1,2) by (simp add: set_col_def)
  have len: "length ?rs = length (rows a)" by (rule length_fold_col)
  have nth: "?rs ! t = (if t \<in> set ix then (rows a ! t)[fi := g t] else rows a ! t)"
    if "t < length (rows a)" for t
    using that by (rule nth_fold_col)
  have ws: "well_shaped ?a'"
  proof (rule well_shapedI)
    fix t assume "t < length (rows ?a')"
    then have t: "t < length (rows a)" using len by simp
    then have "length (rows a ! t) = shape1 a"
      using well_shaped_nth [OF assms(3)] by (simp add: shape0_def)
    then show "length (rows ?a' ! t) = shape1 ?a'" using nth [OF t] by simp
  qed
  have "rows ?a' ! t = (if t \<in> set ix then (rows a ! t)[fi := g t] else rows a ! t)"
    if "t < shape0 a" for t
    using that nth [of t] by (simp add: shape0_def)
  with eq len ws show ?thesis by (intro exI [of _ ?a']) (simp add: shape0_def)
qed

lemma get_col_column:
  "fi < shape1 a \<Longrightarrow> list_all (\<lambda>i. i < shape0 a) ix \<Longrightarrow> get_col a ix fi = Inr (column a ix fi)"
  by (simp add: get_col_def column_def)

lemma column_cong:
  assumes "\<And>i. i \<in> set ix \<Longrightarrow> rows b ! i = rows a ! i"
  shows "column b ix fi = column a ix fi"
  unfolding column_def by (rule map_cong [OF refl]) (simp add: assms)

lemma first_error_cong:
  assumes "\<And>fi. column b off fi = column a off fi"
  shows "first_error itp off b fis = first_error itp off a fis"
  by (induction fis) (simp_all add: assms split: sum.splits)

lemma interpolated_cong:
  assumes "\<And>fi. column b off fi = column a off fi"
  shows "interpolated itp off b fi t = interpolated itp off a fi t"
  by (simp add: interpolated_def assms)

lemma first_error_None:
  "first_error itp off a fis = None \<longleftrightarrow>
     (\<forall>fi\<in>set fis. (\<exists>f. itp off (map creal (column a off fi)) = Inr f)
                  \<and> (\<exists>f. itp off (map cimag (column a off fi)) = Inr f))"
  by (induction fis) (auto split: sum.splits)

lemma first_error_Some:
  "first_error itp off a fis = Some e \<Longrightarrow>
     \<exists>fi\<in>set fis. itp off (map creal (column a off fi)) = Inl e
               \<or> itp off (map cimag (column a off fi)) = Inl e"
  by (induction fis) (auto split: sum.splits)

subsection \<open>The interpolation loop\<close>

text \<open>The loop writes to the array at its address and to nothing else.\<close>

lemma interpolate_loop_frame:
  "length (snd (interpolate_loop itp on off fis h p)) = length h
   \<and> (\<forall>q. q \<noteq> p \<longrightarrow> snd (interpolate_loop itp on off fis h p) ! q = h ! q)"
proof (induction fis arbitrary: h)
  case Nil
  show ?case by simp
next
  case (Cons fi fis)
  have step: "length (snd (setitem_col h p on fi vs)) = length h
              \<and> (\<forall>q. q \<noteq> p \<longrightarrow> snd (setitem_col h p on fi vs) ! q = h ! q)" for vs
    by (simp add: setitem_col_def split: option.splits obj.splits sum.splits)
  show ?case
  proof (cases "getitem_col h p off fi")
    case (Inl e)
    then show ?thesis by simp
  next
    case ys: (Inr ys)
    show ?thesis
    proof (cases "itp off (map creal ys)")
      case (Inl e)
      then show ?thesis using ys by simp
    next
      case fr: (Inr fr)
      show ?thesis
      proof (cases "itp off (map cimag ys)")
        case (Inl e)
        then show ?thesis using ys fr by simp
      next
        case fim: (Inr fim)
        let ?vs = "map (\<lambda>t. recombine (fr t) (fim t)) on"
        obtain eo h' where sc: "setitem_col h p on fi ?vs = (eo, h')" by (cases "setitem_col h p on fi ?vs")
        from step [of ?vs] sc have h': "length h' = length h" "\<forall>q. q \<noteq> p \<longrightarrow> h' ! q = h ! q"
          by simp_all
        show ?thesis
        proof (cases eo)
          case (Some e)
          then show ?thesis using ys fr fim sc h' by simp
        next
          case None
          then have "interpolate_loop itp on off (fi # fis) h p = interpolate_loop itp on off fis h' p"
            using ys fr fim sc by simp
          then show ?thesis using Cons.IH [of h'] h' by simp
        qed
      qed
    qed
  qed
qed

text \<open>
  The loop ends with the first exception of the interpolator, if there is one; if there
  is none, it has replaced exactly the samples of the channels \<open>fis\<close> at the indices
  \<open>on\<close>, by the values of the interpolants built from the array as it was before the loop.
\<close>

lemma interpolate_loop_char:
  assumes "lookup h p = Some (Vis a)" and "well_shaped a"
    and "list_all (\<lambda>i. i < shape0 a) on" and "list_all (\<lambda>i. i < shape0 a) off"
    and "set on \<inter> set off = {}" and "list_all (\<lambda>j. j < shape1 a) fis"
  shows "\<exists>a'. interpolate_loop itp on off fis h p = (first_error itp off a fis, h[p := Vis a'])
           \<and> well_shaped a' \<and> shape0 a' = shape0 a \<and> shape1 a' = shape1 a
           \<and> (first_error itp off a fis = None \<longrightarrow>
                (\<forall>t<shape0 a. \<forall>j<shape1 a.
                   rows a' ! t ! j = (if t \<in> set on \<and> j \<in> set fis
                                      then interpolated itp off a j t else rows a ! t ! j)))"
  using assms
proof (induction fis arbitrary: h a)
  case Nil
  from Nil.prems(1) have "h[p := Vis a] = h" by (rule lookup_update_id)
  then show ?case using Nil.prems(2) by (intro exI [of _ a]) simp
next
  case (Cons fi fis)
  note lk = Cons.prems(1) and ws = Cons.prems(2) and on = Cons.prems(3) and off = Cons.prems(4)
    and disj = Cons.prems(5)
  from Cons.prems(6) have fi: "fi < shape1 a" and fis: "list_all (\<lambda>j. j < shape1 a) fis" by simp_all
  have keep: "h[p := Vis a] = h" using lk by (rule lookup_update_id)
  have p: "p < length h" using lk by (simp add: lookup_Some)
  have gc: "getitem_col h p off fi = Inr (column a off fi)"
    using lk get_col_column [OF fi off] by (simp add: getitem_col_def)
  show ?case
  proof (cases "itp off (map creal (column a off fi))")
    case (Inl e)
    then have l: "interpolate_loop itp on off (fi # fis) h p = (first_error itp off a (fi # fis), h[p := Vis a])"
      using gc keep by simp
    have ne: "first_error itp off a (fi # fis) \<noteq> None" using Inl by simp
    show ?thesis
    proof (intro exI [of _ a] conjI impI)
      show "interpolate_loop itp on off (fi # fis) h p = (first_error itp off a (fi # fis), h[p := Vis a])"
        by (rule l)
      show "well_shaped a" by (rule ws)
      assume "first_error itp off a (fi # fis) = None"
      with ne show "\<forall>t<shape0 a. \<forall>j<shape1 a.
                   rows a ! t ! j = (if t \<in> set on \<and> j \<in> set (fi # fis)
                                      then interpolated itp off a j t else rows a ! t ! j)"
        by contradiction
    qed (rule refl)+
  next
    case fr: (Inr fr)
    show ?thesis
    proof (cases "itp off (map cimag (column a off fi))")
      case (Inl e)
      then have l: "interpolate_loop itp on off (fi # fis) h p = (first_error itp off a (fi # fis), h[p := Vis a])"
        using gc fr keep by simp
      have ne: "first_error itp off a (fi # fis) \<noteq> None" using Inl fr by simp
      show ?thesis
      proof (intro exI [of _ a] conjI impI)
        show "interpolate_loop itp on off (fi # fis) h p = (first_error itp off a (fi # fis), h[p := Vis a])"
          by (rule l)
        show "well_shaped a" by (rule ws)
        assume "first_error itp off a (fi # fis) = None"
        with ne show "\<forall>t<shape0 a. \<forall>j<shape1 a.
                     rows a ! t ! j = (if t \<in> set on \<and> j \<in> set (fi # fis)
                                        then interpolated itp off a j t else rows a ! t ! j)"
          by contradiction
      qed (rule refl)+
    next
      case fim: (Inr fim)
      let ?g = "\<lambda>t. recombine (fr t) (fim t)"
      from set_col_props [OF fi on ws, of ?g] obtain a1 where
        sc: "set_col a on fi (map ?g on) = Inr a1"
        and s0: "shape0 a1 = shape0 a" and s1: "shape1 a1 = shape1 a" and ws1: "well_shaped a1"
        and r1: "\<forall>t<shape0 a. rows a1 ! t = (if t \<in> set on then (rows a ! t)[fi := ?g t] else rows a ! t)"
        by blast
      let ?h1 = "h[p := Vis a1]"
      have si: "setitem_col h p on fi (map ?g on) = (None, ?h1)"
        using lk sc by (simp add: setitem_col_def)
      have lk1: "lookup ?h1 p = Some (Vis a1)" using p by (simp add: lookup_Some)
      have col: "column a1 off j = column a off j" for j
      proof (rule column_cong)
        fix i assume i: "i \<in> set off"
        then have "i \<notin> set on" using disj by auto
        moreover have "i < shape0 a" using off i by (simp add: list_all_iff)
        ultimately show "rows a1 ! i = rows a ! i" using r1 by simp
      qed
      have fe: "first_error itp off a1 fis = first_error itp off a fis"
        by (rule first_error_cong) (rule col)
      have ip: "interpolated itp off a1 j t = interpolated itp off a j t" for j t
        by (rule interpolated_cong) (rule col)
      from Cons.IH [of ?h1 a1, OF lk1 ws1] on off disj fis s0 s1
      obtain a' where
        loop: "interpolate_loop itp on off fis ?h1 p = (first_error itp off a1 fis, ?h1[p := Vis a'])"
        and ws': "well_shaped a'" and s0': "shape0 a' = shape0 a1" and s1': "shape1 a' = shape1 a1"
        and ent: "first_error itp off a1 fis = None \<longrightarrow>
                (\<forall>t<shape0 a1. \<forall>j<shape1 a1.
                   rows a' ! t ! j = (if t \<in> set on \<and> j \<in> set fis
                                      then interpolated itp off a1 j t else rows a1 ! t ! j))"
        by auto
      have fe2: "first_error itp off a (fi # fis) = first_error itp off a fis"
        using fr fim by simp
      have l2: "interpolate_loop itp on off (fi # fis) h p = (first_error itp off a (fi # fis), h[p := Vis a'])"
        using gc fr fim si loop fe fe2 by simp
      have gfi: "?g t = interpolated itp off a fi t" for t
        using fr fim by (simp add: interpolated_def)
      have e1: "rows a1 ! t ! j = (if t \<in> set on \<and> j = fi then interpolated itp off a fi t else rows a ! t ! j)"
        if t: "t < shape0 a" and j: "j < shape1 a" for t j
      proof -
        have len: "length (rows a ! t) = shape1 a" using well_shaped_nth [OF ws t] .
        show ?thesis using r1 t j len gfi by (simp add: nth_list_update)
      qed
      have ent2: "rows a' ! t ! j = (if t \<in> set on \<and> j \<in> set (fi # fis)
                                      then interpolated itp off a j t else rows a ! t ! j)"
        if none: "first_error itp off a (fi # fis) = None" and t: "t < shape0 a" and j: "j < shape1 a" for t j
      proof -
        from none fe fe2 have "first_error itp off a1 fis = None" by simp
        with ent t j s0 s1 have "rows a' ! t ! j = (if t \<in> set on \<and> j \<in> set fis
                                      then interpolated itp off a1 j t else rows a1 ! t ! j)" by simp
        then show ?thesis using e1 [OF t j] ip by auto
      qed
      show ?thesis
      proof (intro exI [of _ a'] conjI impI allI)
        show "interpolate_loop itp on off (fi # fis) h p = (first_error itp off a (fi # fis), h[p := Vis a'])"
          by (rule l2)
        show "well_shaped a'" by (rule ws')
        show "shape0 a' = shape0 a" using s0' s0 by simp
        show "shape1 a' = shape1 a" using s1' s1 by simp
        fix t j
        assume "first_error itp off a (fi # fis) = None" and "t < shape0 a" and "j < shape1 a"
        then show "rows a' ! t ! j = (if t \<in> set on \<and> j \<in> set (fi # fis)
                                      then interpolated itp off a j t else rows a ! t ! j)"
          by (rule ent2)
      qed
    qed
  qed
qed

subsection \<open>The branches of the computation\<close>

lemma plot_vis1_mask: "flag_mask params \<Longrightarrow> plot_vis1 itp params ts h vis vis_mask = ma_array h vis vis_mask"
  by (simp add: plot_vis1_def)

lemma plot_vis1_pass:
  "\<not> flag_mask params \<Longrightarrow> \<not> flag_ns params \<Longrightarrow>
   plot_vis1 itp params ts h vis vis_mask = (Inr (Array vis), h)"
  by (simp add: plot_vis1_def)

lemma plot_vis1_no_ns_on:
  "\<not> flag_mask params \<Longrightarrow> flag_ns params \<Longrightarrow> ts ''ns_on'' = None \<Longrightarrow>
   plot_vis1 itp params ts h vis vis_mask = (Inr (Array vis), h)"
  by (simp add: plot_vis1_def)

lemma copy_cases:
  "(\<exists>a. lookup h p = Some (Vis a) \<and> copy h p = (Inr (length h), h @ [Vis a]))
   \<or> copy h p = (Inl TypeError, h)"
  by (cases "lookup h p") (auto simp: copy_def split: obj.splits)

lemma copy_Vis: "lookup h p = Some (Vis a) \<Longrightarrow> copy h p = (Inr (length h), h @ [Vis a])"
  by (simp add: copy_def)

lemma plot_vis1_copy_fails:
  "\<not> flag_mask params \<Longrightarrow> flag_ns params \<Longrightarrow> ts ''ns_on'' = Some ns \<Longrightarrow>
   copy h vis = (Inl TypeError, h) \<Longrightarrow>
   plot_vis1 itp params ts h vis vis_mask = (Inl TypeError, h)"
  by (simp add: plot_vis1_def)

lemma plot_vis1_flag:
  "\<not> flag_mask params \<Longrightarrow> flag_ns params \<Longrightarrow> \<not> interpolate_ns params \<Longrightarrow>
   ts ''ns_on'' = Some ns \<Longrightarrow> copy h vis = (Inr (length h), h @ [Vis a]) \<Longrightarrow>
   plot_vis1 itp params ts h vis vis_mask
     = (case setitem_rows (h @ [Vis a]) (length h) (where_ix ns) nan_nan of
          (Some e, h2) \<Rightarrow> (Inl e, h2)
        | (None, h2) \<Rightarrow> (Inr (Array (length h)), h2))"
  by (simp add: plot_vis1_def Let_def)

lemma plot_vis1_interp:
  "\<not> flag_mask params \<Longrightarrow> flag_ns params \<Longrightarrow> interpolate_ns params \<Longrightarrow>
   ts ''ns_on'' = Some ns \<Longrightarrow> copy h vis = (Inr (length h), h @ [Vis a]) \<Longrightarrow>
   plot_vis1 itp params ts h vis vis_mask
     = (case interpolate_loop itp (where_ix ns) (where_ix (map Not ns)) [0..<shape1 a]
               (h @ [Vis a]) (length h) of
          (Some e, h2) \<Rightarrow> (Inl e, h2)
        | (None, h2) \<Rightarrow> (Inr (Array (length h)), h2))"
  by (simp add: plot_vis1_def Let_def shape1_at_def lookup_def)

lemma plot_vis1_interpolate:
  assumes "\<not> flag_mask params" and "flag_ns params" and "interpolate_ns params"
    and "ts ''ns_on'' = Some ns" and "lookup h vis = Some (Vis a)" and "well_shaped a"
    and "length ns \<le> shape0 a"
  shows "\<exists>a'. plot_vis1 itp params ts h vis vis_mask
            = ((case first_error itp (where_ix (map Not ns)) a [0..<shape1 a] of
                  None \<Rightarrow> Inr (Array (length h)) | Some e \<Rightarrow> Inl e), h @ [Vis a'])
          \<and> well_shaped a' \<and> shape0 a' = shape0 a \<and> shape1 a' = shape1 a
          \<and> (first_error itp (where_ix (map Not ns)) a [0..<shape1 a] = None \<longrightarrow>
               (\<forall>t<shape0 a. \<forall>j<shape1 a.
                  rows a' ! t ! j = (if t < length ns \<and> ns ! t
                                     then interpolated itp (where_ix (map Not ns)) a j t
                                     else rows a ! t ! j)))"
proof -
  let ?h1 = "h @ [Vis a]"
  let ?p = "length h"
  let ?on = "where_ix ns"
  let ?off = "where_ix (map Not ns)"
  let ?fis = "[0..<shape1 a]"
  let ?fe = "first_error itp ?off a ?fis"
  have cp: "copy h vis = (Inr ?p, ?h1)" using assms(5) by (simp add: copy_def)
  have lk1: "lookup ?h1 ?p = Some (Vis a)" by (simp add: lookup_def)
  have s1: "shape1_at ?h1 ?p = shape1 a" by (simp add: shape1_at_def lk1)
  have on: "list_all (\<lambda>i. i < shape0 a) ?on" using assms(7) by (rule where_ix_in_range)
  have off: "list_all (\<lambda>i. i < shape0 a) ?off" using assms(7) by (intro where_ix_in_range) simp
  have disj: "set ?on \<inter> set ?off = {}" by (rule on_off_disjoint)
  have fis: "list_all (\<lambda>j. j < shape1 a) ?fis" by (simp add: list_all_iff)
  from interpolate_loop_char [OF lk1 assms(6) on off disj fis, of itp] obtain a' where
    c: "interpolate_loop itp ?on ?off ?fis ?h1 ?p = (?fe, ?h1[?p := Vis a'])
        \<and> well_shaped a' \<and> shape0 a' = shape0 a \<and> shape1 a' = shape1 a
        \<and> (?fe = None \<longrightarrow>
                (\<forall>t<shape0 a. \<forall>j<shape1 a.
                   rows a' ! t ! j = (if t \<in> set ?on \<and> j \<in> set ?fis
                                      then interpolated itp ?off a j t else rows a ! t ! j)))" ..
  note loop = c [THEN conjunct1]
    and ws' = c [THEN conjunct2, THEN conjunct1]
    and s0' = c [THEN conjunct2, THEN conjunct2, THEN conjunct1]
    and s1' = c [THEN conjunct2, THEN conjunct2, THEN conjunct2, THEN conjunct1]
    and ent = c [THEN conjunct2, THEN conjunct2, THEN conjunct2, THEN conjunct2]
  have upd: "?h1[?p := Vis a'] = h @ [Vis a']" by simp
  have plot: "plot_vis1 itp params ts h vis vis_mask
               = (case interpolate_loop itp ?on ?off ?fis ?h1 ?p of
                    (Some e, h2) \<Rightarrow> (Inl e, h2)
                  | (None, h2) \<Rightarrow> (Inr (Array ?p), h2))"
    using assms(1-4) cp s1 by (simp add: plot_vis1_def Let_def)
  have res: "plot_vis1 itp params ts h vis vis_mask
            = ((case ?fe of None \<Rightarrow> Inr (Array (length h)) | Some e \<Rightarrow> Inl e), h @ [Vis a'])"
    unfolding plot loop upd by (cases ?fe) simp_all
  have ent': "rows a' ! t ! j = (if t < length ns \<and> ns ! t
                                     then interpolated itp ?off a j t else rows a ! t ! j)"
    if "?fe = None" "t < shape0 a" "j < shape1 a" for t j
  proof -
    from ent [rule_format, OF that]
    have "rows a' ! t ! j = (if t \<in> set ?on \<and> j \<in> set ?fis
                                      then interpolated itp ?off a j t else rows a ! t ! j)" .
    moreover have "t \<in> set ?on \<longleftrightarrow> t < length ns \<and> ns ! t" by (simp add: set_where_ix)
    moreover have "j \<in> set ?fis" using that(3) by simp
    ultimately show ?thesis by simp
  qed
  show ?thesis
  proof (intro exI [of _ a'] conjI impI allI)
    show "plot_vis1 itp params ts h vis vis_mask
            = ((case ?fe of None \<Rightarrow> Inr (Array (length h)) | Some e \<Rightarrow> Inl e), h @ [Vis a'])"
      by (rule res)
    show "well_shaped a'" by (rule ws')
    show "shape0 a' = shape0 a" by (rule s0')
    show "shape1 a' = shape1 a" by (rule s1')
    fix t j
    assume "?fe = None" "t < shape0 a" "j < shape1 a"
    then show "rows a' ! t ! j = (if t < length ns \<and> ns ! t
                                     then interpolated itp ?off a j t else rows a ! t ! j)"
      by (rule ent')
  qed
qed

lemma snd_ma_array: "snd (ma_array h vis vis_mask) = h"
  by (simp add: ma_array_def split: option.splits obj.splits)

lemma setitem_rows_frame:
  "length (snd (setitem_rows h p ix v)) = length h
   \<and> (\<forall>q. q \<noteq> p \<longrightarrow> snd (setitem_rows h p ix v) ! q = h ! q)"
  by (simp add: setitem_rows_def split: option.splits obj.splits sum.splits)

lemma frame_append:
  assumes "length h2 = Suc (length h)" and "\<forall>q. q \<noteq> length h \<longrightarrow> h2 ! q = (h @ [x]) ! q"
  shows "take (length h) h2 = h"
proof (rule nth_equalityI)
  show "length (take (length h) h2) = length h" using assms(1) by simp
  fix q assume "q < length (take (length h) h2)"
  then have q: "q < length h" by simp
  then have "h2 ! q = (h @ [x]) ! q" using assms(2) by simp
  then show "take (length h) h2 ! q = h ! q" using q by (simp add: nth_append)
qed

lemma plot_vis1_heap: "take (length h) (snd (plot_vis1 itp params ts h vis vis_mask)) = h"
proof (cases "flag_mask params")
  case True
  then show ?thesis by (simp add: plot_vis1_mask snd_ma_array)
next
  case fm: False
  show ?thesis
  proof (cases "flag_ns params")
    case False
    with fm show ?thesis by (simp add: plot_vis1_pass)
  next
    case fn: True
    show ?thesis
    proof (cases "ts ''ns_on''")
      case None
      with fm fn show ?thesis by (simp add: plot_vis1_no_ns_on)
    next
      case (Some ns)
      from copy_cases [of h vis] show ?thesis
      proof
        assume "copy h vis = (Inl TypeError, h)"
        with fm fn Some show ?thesis by (simp add: plot_vis1_copy_fails)
      next
        assume "\<exists>a. lookup h vis = Some (Vis a) \<and> copy h vis = (Inr (length h), h @ [Vis a])"
        then obtain a where cp: "copy h vis = (Inr (length h), h @ [Vis a])" by blast
        show ?thesis
        proof (cases "interpolate_ns params")
          case False
          obtain eo h2 where sr: "setitem_rows (h @ [Vis a]) (length h) (where_ix ns) nan_nan = (eo, h2)"
            by (cases "setitem_rows (h @ [Vis a]) (length h) (where_ix ns) nan_nan")
          from setitem_rows_frame [of "h @ [Vis a]" "length h" "where_ix ns" nan_nan] sr
          have "length h2 = Suc (length h)" and "\<forall>q. q \<noteq> length h \<longrightarrow> h2 ! q = (h @ [Vis a]) ! q"
            by simp_all
          then have "take (length h) h2 = h" by (rule frame_append)
          moreover have "snd (plot_vis1 itp params ts h vis vis_mask) = h2"
            unfolding plot_vis1_flag [where ts = ts, OF fm fn False Some cp] sr by (cases eo) simp_all
          ultimately show ?thesis by simp
        next
          case True
          let ?loop = "interpolate_loop itp (where_ix ns) (where_ix (map Not ns)) [0..<shape1 a]
               (h @ [Vis a]) (length h)"
          obtain eo h2 where lp: "?loop = (eo, h2)" by (cases ?loop)
          from interpolate_loop_frame [of itp "where_ix ns" "where_ix (map Not ns)" "[0..<shape1 a]"
              "h @ [Vis a]" "length h"] lp
          have "length h2 = Suc (length h)" and "\<forall>q. q \<noteq> length h \<longrightarrow> h2 ! q = (h @ [Vis a]) ! q"
            by simp_all
          then have "take (length h) h2 = h" by (rule frame_append)
          moreover have "snd (plot_vis1 itp params ts h vis vis_mask) = h2"
            unfolding plot_vis1_interp [where ts = ts, OF fm fn True Some cp] lp by (cases eo) simp_all
          ultimately show ?thesis by simp
        qed
      qed
    qed
  qed
qed

lemma lookup_take:
  assumes "take (length h) h' = h" and "p < length h"
  shows "lookup h' p = lookup h p"
proof -
  have "length (take (length h) h') = length h" using assms(1) by simp
  then have "length h \<le> length h'" by simp
  moreover have "take (length h) h' ! p = h' ! p" using assms(2) by simp
  then have "h ! p = h' ! p" using assms(1) by simp
  ultimately show ?thesis using assms(2) by (simp add: lookup_def)
qed

subsection \<open>Runs on the concrete data\<close>

lemma on0: "where_ix ns_on0 = [0, 3]"
  by (simp add: where_ix_def ns_on0_def upt_rec [of 0 6] upt_rec [of 1 6] upt_rec [of 2 6]
      upt_rec [of 3 6] upt_rec [of 4 6] upt_rec [of 5 6])

lemma off0: "where_ix (map Not ns_on0) = [1, 2, 4, 5]"
  by code_simp

lemma upt_0_2: "[0..<2] = [0, 1]"
  by code_simp

lemma run0:
  "plot_vis1 example_spline \<lparr>flag_mask = False, flag_ns = True, interpolate_ns = True\<rparr> ts0 heap0 0 1
     = (Inr (Array 2), heap0 @ [Vis interp0])"
  by (simp add: plot_vis1_def ts0_def heap0_def copy_def lookup_def Let_def on0 off0 upt_0_2 shape1_at_def
      vis0_def interp0_def getitem_col_def get_col_def shape0_def setitem_col_def set_col_def
      example_spline_def lagrange_def recombine_def of_float_def one_J_def cplx_def)

lemma off_few: "where_ix (map Not ns_few) = [1, 2, 3]"
  by code_simp

lemma on_few: "where_ix ns_few = [0]"
  by code_simp

lemma upt_0_1: "[0..<1] = [0]"
  by code_simp

lemma run_few:
  "plot_vis1 example_spline \<lparr>flag_mask = False, flag_ns = True, interpolate_ns = True\<rparr>
      ts_few heap_few 0 1
     = (Inl (LibraryError ''dfitpack.error''), heap_few @ [Vis vis_few])"
  by (simp add: plot_vis1_def ts_few_def heap_few_def copy_def lookup_def Let_def on_few off_few
      upt_0_1 shape1_at_def vis_few_def getitem_col_def get_col_def shape0_def example_spline_def)

lemma well_shaped_vis0: "well_shaped vis0"
  by (simp add: well_shaped_def vis0_def)

lemma lookup_heap0: "lookup heap0 0 = Some (Vis vis0)"
  by (simp add: lookup_def heap0_def)

lemma shape_vis0: "shape0 vis0 = 6" "shape1 vis0 = 2"
  by (simp_all add: shape0_def vis0_def)

subsection \<open>The claims\<close>

text \<open>
  Claim C2. With neither \<open>flag_mask\<close> nor \<open>flag_ns\<close> set (pass-through), the result is the
  input visibility array itself, at its own address, and the heap is unchanged, for every
  visibility array and mask.
\<close>

theorem pass_through_identity:
  "plot_vis1 itp \<lparr>flag_mask = False, flag_ns = False, interpolate_ns = i\<rparr> ts h vis vis_mask
     = (Inr (Array vis), h)"
  by (simp add: plot_vis1_pass)

text \<open>
  Claim C3. With \<open>flag_ns\<close> set and \<open>interpolate_ns\<close> not set, for a complex visibility
  array and a noise indicator whose true indices lie within the time axis, the result is a
  new array of the same shape in which every sample at a time index where the indicator is
  true has not-a-number as its real and as its imaginary part, and every other sample equals
  the sample of the input.
\<close>

theorem flag_ns_result:
  assumes "\<not> flag_mask params" and "flag_ns params" and "\<not> interpolate_ns params"
    and "ts ''ns_on'' = Some ns_on" and "lookup h vis = Some (Vis a)" and "well_shaped a"
    and "list_all (\<lambda>i. i < shape0 a) (where_ix ns_on)"
  shows "\<exists>a'. plot_vis1 itp params ts h vis vis_mask = (Inr (Array (length h)), h @ [Vis a'])
          \<and> shape0 a' = shape0 a \<and> shape1 a' = shape1 a
          \<and> (\<forall>t<shape0 a. \<forall>fi<shape1 a.
                if t < length ns_on \<and> ns_on ! t
                then creal (rows a' ! t ! fi) = NaN \<and> cimag (rows a' ! t ! fi) = NaN
                else rows a' ! t ! fi = rows a ! t ! fi)"
proof -
  let ?h1 = "h @ [Vis a]"
  let ?on = "where_ix ns_on"
  from set_rows_props [OF assms(7,6), of nan_nan] obtain a' where
    c: "set_rows a ?on nan_nan = Inr a' \<and> shape0 a' = shape0 a \<and> shape1 a' = shape1 a
           \<and> well_shaped a'
           \<and> (\<forall>t<shape0 a. \<forall>j<shape1 a.
                 rows a' ! t ! j = (if t \<in> set ?on then nan_nan else rows a ! t ! j))" ..
  note sr = c [THEN conjunct1]
    and s0 = c [THEN conjunct2, THEN conjunct1]
    and s1 = c [THEN conjunct2, THEN conjunct2, THEN conjunct1]
    and ent = c [THEN conjunct2, THEN conjunct2, THEN conjunct2, THEN conjunct2]
  have lk1: "lookup ?h1 (length h) = Some (Vis a)" by (simp add: lookup_def)
  have si: "setitem_rows ?h1 (length h) ?on nan_nan = (None, h @ [Vis a'])"
    using lk1 sr by (simp add: setitem_rows_def)
  have res: "plot_vis1 itp params ts h vis vis_mask = (Inr (Array (length h)), h @ [Vis a'])"
    unfolding plot_vis1_flag [where ts = ts, OF assms(1-4) copy_Vis [OF assms(5)]] si by simp
  have ent': "if t < length ns_on \<and> ns_on ! t
                then creal (rows a' ! t ! fi) = NaN \<and> cimag (rows a' ! t ! fi) = NaN
                else rows a' ! t ! fi = rows a ! t ! fi"
    if "t < shape0 a" "fi < shape1 a" for t fi
  proof -
    from ent [rule_format, OF that]
    have "rows a' ! t ! fi = (if t \<in> set ?on then nan_nan else rows a ! t ! fi)" .
    moreover have "t \<in> set ?on \<longleftrightarrow> t < length ns_on \<and> ns_on ! t" by (simp add: set_where_ix)
    ultimately show ?thesis by (simp add: nan_nan_def)
  qed
  show ?thesis
  proof (intro exI [of _ a'] conjI allI impI)
    show "plot_vis1 itp params ts h vis vis_mask = (Inr (Array (length h)), h @ [Vis a'])"
      by (rule res)
    show "shape0 a' = shape0 a" by (rule s0)
    show "shape1 a' = shape1 a" by (rule s1)
    fix t fi assume "t < shape0 a" "fi < shape1 a"
    then show "if t < length ns_on \<and> ns_on ! t
                then creal (rows a' ! t ! fi) = NaN \<and> cimag (rows a' ! t ! fi) = NaN
                else rows a' ! t ! fi = rows a ! t ! fi"
      by (rule ent')
  qed
qed

theorem flag_ns_result_witness:
  "\<exists>a'. plot_vis1 example_spline \<lparr>flag_mask = False, flag_ns = True, interpolate_ns = False\<rparr>
           ts0 heap0 0 1 = (Inr (Array 2), heap0 @ [Vis a'])
        \<and> shape0 a' = 6 \<and> shape1 a' = 2
        \<and> creal (rows a' ! 3 ! 1) = NaN \<and> cimag (rows a' ! 3 ! 1) = NaN
        \<and> rows a' ! 4 ! 0 = cplx 4 8"
proof -
  let ?P = "\<lparr>flag_mask = False, flag_ns = True, interpolate_ns = False\<rparr>"
  have fl: "\<not> flag_mask ?P" "flag_ns ?P" "\<not> interpolate_ns ?P" by simp_all
  have ts: "ts0 ''ns_on'' = Some ns_on0" by (simp add: ts0_def)
  have on: "list_all (\<lambda>i. i < shape0 vis0) (where_ix ns_on0)" by (simp add: on0 shape_vis0)
  from flag_ns_result [where ts = ts0 and itp = example_spline and vis_mask = 1,
      OF fl ts lookup_heap0 well_shaped_vis0 on]
  obtain a' where
    c: "plot_vis1 example_spline ?P ts0 heap0 0 1 = (Inr (Array (length heap0)), heap0 @ [Vis a'])
          \<and> shape0 a' = shape0 vis0 \<and> shape1 a' = shape1 vis0
          \<and> (\<forall>t<shape0 vis0. \<forall>fi<shape1 vis0.
                if t < length ns_on0 \<and> ns_on0 ! t
                then creal (rows a' ! t ! fi) = NaN \<and> cimag (rows a' ! t ! fi) = NaN
                else rows a' ! t ! fi = rows vis0 ! t ! fi)" ..
  note ent = c [THEN conjunct2, THEN conjunct2, THEN conjunct2, rule_format]
  have r: "plot_vis1 example_spline ?P ts0 heap0 0 1 = (Inr (Array 2), heap0 @ [Vis a'])"
    using c [THEN conjunct1] by (simp add: heap0_def)
  have s: "shape0 a' = 6" "shape1 a' = 2"
    using c [THEN conjunct2, THEN conjunct1] c [THEN conjunct2, THEN conjunct2, THEN conjunct1]
    by (simp_all add: shape_vis0)
  have "if 3 < length ns_on0 \<and> ns_on0 ! 3
        then creal (rows a' ! 3 ! 1) = NaN \<and> cimag (rows a' ! 3 ! 1) = NaN
        else rows a' ! 3 ! 1 = rows vis0 ! 3 ! 1"
    by (rule ent) (simp_all add: shape_vis0)
  then have e1: "creal (rows a' ! 3 ! 1) = NaN \<and> cimag (rows a' ! 3 ! 1) = NaN"
    by (simp add: ns_on0_def)
  have "if 4 < length ns_on0 \<and> ns_on0 ! 4
        then creal (rows a' ! 4 ! 0) = NaN \<and> cimag (rows a' ! 4 ! 0) = NaN
        else rows a' ! 4 ! 0 = rows vis0 ! 4 ! 0"
    by (rule ent) (simp_all add: shape_vis0)
  then have e2: "rows a' ! 4 ! 0 = cplx 4 8"
    by (simp add: ns_on0_def vis0_def)
  from r s e1 e2 show ?thesis by (intro exI [of _ a']) simp
qed

text \<open>
  Claim C4. With \<open>flag_ns\<close> and \<open>interpolate_ns\<close> set, when the interpolator accepts the
  samples of every channel, the result is a new array of the same shape in which every
  sample at a time index where the indicator is false is unchanged, and every sample at a
  time index where it is true is, for its own channel, the recombination
  \<open>itp_real + 1.0J * itp_imag\<close> of the values at that index of the interpolant of the real
  parts and the interpolant of the imaginary parts of the channel's samples at the indices
  where the indicator is false. For finite values \<open>recombine (Fin x) (Fin y)\<close> is the
  complex number with the parts \<open>x\<close> and \<open>y\<close> (lemma \<open>recombine_Fin\<close>).
\<close>

theorem interpolate_ns_result:
  assumes "\<not> flag_mask params" and "flag_ns params" and "interpolate_ns params"
    and "ts ''ns_on'' = Some ns_on" and "lookup h vis = Some (Vis a)" and "well_shaped a"
    and "length ns_on \<le> shape0 a"
    and "\<forall>fi<shape1 a.
           itp (where_ix (map Not ns_on)) (map creal (column a (where_ix (map Not ns_on)) fi)) = Inr (itp_real fi)
         \<and> itp (where_ix (map Not ns_on)) (map cimag (column a (where_ix (map Not ns_on)) fi)) = Inr (itp_imag fi)"
  shows "\<exists>a'. plot_vis1 itp params ts h vis vis_mask = (Inr (Array (length h)), h @ [Vis a'])
          \<and> shape0 a' = shape0 a \<and> shape1 a' = shape1 a
          \<and> (\<forall>t<shape0 a. \<forall>fi<shape1 a.
                rows a' ! t ! fi = (if t < length ns_on \<and> ns_on ! t
                                    then recombine (itp_real fi t) (itp_imag fi t)
                                    else rows a ! t ! fi))"
proof -
  let ?off = "where_ix (map Not ns_on)"
  have none: "first_error itp ?off a [0..<shape1 a] = None"
    unfolding first_error_None using assms(8) by simp
  have ip: "interpolated itp ?off a fi t = recombine (itp_real fi t) (itp_imag fi t)"
    if "fi < shape1 a" for fi t
    using assms(8) that by (simp add: interpolated_def)
  from plot_vis1_interpolate [where ts = ts and itp = itp and vis_mask = vis_mask, OF assms(1-7)]
  obtain a' where
    c: "plot_vis1 itp params ts h vis vis_mask
            = ((case first_error itp ?off a [0..<shape1 a] of
                  None \<Rightarrow> Inr (Array (length h)) | Some e \<Rightarrow> Inl e), h @ [Vis a'])
          \<and> well_shaped a' \<and> shape0 a' = shape0 a \<and> shape1 a' = shape1 a
          \<and> (first_error itp ?off a [0..<shape1 a] = None \<longrightarrow>
               (\<forall>t<shape0 a. \<forall>j<shape1 a.
                  rows a' ! t ! j = (if t < length ns_on \<and> ns_on ! t
                                     then interpolated itp ?off a j t
                                     else rows a ! t ! j)))" ..
  have res: "plot_vis1 itp params ts h vis vis_mask = (Inr (Array (length h)), h @ [Vis a'])"
    using c [THEN conjunct1] unfolding none by simp
  note s = c [THEN conjunct2, THEN conjunct2, THEN conjunct1]
    c [THEN conjunct2, THEN conjunct2, THEN conjunct2, THEN conjunct1]
  note ent = c [THEN conjunct2, THEN conjunct2, THEN conjunct2, THEN conjunct2, THEN mp, OF none]
  have ent2: "rows a' ! t ! fi = (if t < length ns_on \<and> ns_on ! t
                                    then recombine (itp_real fi t) (itp_imag fi t)
                                    else rows a ! t ! fi)"
    if t: "t < shape0 a" and fi: "fi < shape1 a" for t fi
    using ent [rule_format, OF t fi] unfolding ip [OF fi] .
  show ?thesis
  proof (intro exI [of _ a'] conjI allI impI)
    show "plot_vis1 itp params ts h vis vis_mask = (Inr (Array (length h)), h @ [Vis a'])"
      by (rule res)
    show "shape0 a' = shape0 a" "shape1 a' = shape1 a" by (rule s)+
    fix t fi assume "t < shape0 a" "fi < shape1 a"
    then show "rows a' ! t ! fi = (if t < length ns_on \<and> ns_on ! t
                                    then recombine (itp_real fi t) (itp_imag fi t)
                                    else rows a ! t ! fi)"
      by (rule ent2)
  qed
qed

theorem interpolate_ns_result_witness:
  "\<exists>a'. plot_vis1 example_spline \<lparr>flag_mask = False, flag_ns = True, interpolate_ns = True\<rparr>
           ts0 heap0 0 1 = (Inr (Array 2), heap0 @ [Vis a'])
        \<and> shape0 a' = 6 \<and> shape1 a' = 2
        \<and> rows vis0 ! 3 ! 0 = cplx 50 50 \<and> rows a' ! 3 ! 0 = cplx 3 6
        \<and> rows a' ! 0 ! 1 = cplx 7 0
        \<and> rows a' ! 4 ! 0 = cplx 4 8"
proof -
  let ?P = "\<lparr>flag_mask = False, flag_ns = True, interpolate_ns = True\<rparr>"
  let ?off = "where_ix (map Not ns_on0)"
  let ?re = "\<lambda>fi. projr (example_spline ?off (map creal (column vis0 ?off fi)))"
  let ?im = "\<lambda>fi. projr (example_spline ?off (map cimag (column vis0 ?off fi)))"
  have fl: "\<not> flag_mask ?P" "flag_ns ?P" "interpolate_ns ?P" by simp_all
  have ts: "ts0 ''ns_on'' = Some ns_on0" by (simp add: ts0_def)
  have len: "length ns_on0 \<le> shape0 vis0" by (simp add: ns_on0_def shape_vis0)
  have ok: "\<forall>fi<shape1 vis0.
           example_spline ?off (map creal (column vis0 ?off fi)) = Inr (?re fi)
         \<and> example_spline ?off (map cimag (column vis0 ?off fi)) = Inr (?im fi)"
    by (simp add: example_spline_def off0)
  from interpolate_ns_result [where ts = ts0 and itp = example_spline and vis_mask = 1
      and itp_real = ?re and itp_imag = ?im,
      OF fl ts lookup_heap0 well_shaped_vis0 len ok]
  obtain a' where
    c: "plot_vis1 example_spline ?P ts0 heap0 0 1 = (Inr (Array (length heap0)), heap0 @ [Vis a'])
          \<and> shape0 a' = shape0 vis0 \<and> shape1 a' = shape1 vis0
          \<and> (\<forall>t<shape0 vis0. \<forall>fi<shape1 vis0.
                rows a' ! t ! fi = (if t < length ns_on0 \<and> ns_on0 ! t
                                    then recombine (?re fi t) (?im fi t)
                                    else rows vis0 ! t ! fi))" ..
  note ent = c [THEN conjunct2, THEN conjunct2, THEN conjunct2, rule_format]
  have r: "plot_vis1 example_spline ?P ts0 heap0 0 1 = (Inr (Array 2), heap0 @ [Vis a'])"
    using c [THEN conjunct1] by (simp add: heap0_def)
  have s: "shape0 a' = 6" "shape1 a' = 2"
    using c [THEN conjunct2, THEN conjunct1] c [THEN conjunct2, THEN conjunct2, THEN conjunct1]
    by (simp_all add: shape_vis0)
  have e0: "rows vis0 ! 3 ! 0 = cplx 50 50" by (simp add: vis0_def)
  have "rows a' ! 3 ! 0 = (if 3 < length ns_on0 \<and> ns_on0 ! 3
                            then recombine (?re 0 3) (?im 0 3) else rows vis0 ! 3 ! 0)"
    by (rule ent) (simp_all add: shape_vis0)
  then have "rows a' ! 3 ! 0 = recombine (?re 0 3) (?im 0 3)" by (simp add: ns_on0_def)
  then have e1: "rows a' ! 3 ! 0 = cplx 3 6"
    unfolding off0
    by (simp add: example_spline_def column_def vis0_def cplx_def lagrange_def recombine_Fin)
  have "rows a' ! 0 ! 1 = (if 0 < length ns_on0 \<and> ns_on0 ! 0
                            then recombine (?re 1 0) (?im 1 0) else rows vis0 ! 0 ! 1)"
    by (rule ent) (simp_all add: shape_vis0)
  then have "rows a' ! 0 ! 1 = recombine (?re 1 0) (?im 1 0)" by (simp add: ns_on0_def)
  then have e2: "rows a' ! 0 ! 1 = cplx 7 0"
    unfolding off0
    by (simp add: example_spline_def column_def vis0_def cplx_def lagrange_def recombine_Fin)
  have "rows a' ! 4 ! 0 = (if 4 < length ns_on0 \<and> ns_on0 ! 4
                            then recombine (?re 0 4) (?im 0 4) else rows vis0 ! 4 ! 0)"
    by (rule ent) (simp_all add: shape_vis0)
  then have e3: "rows a' ! 4 ! 0 = cplx 4 8" by (simp add: ns_on0_def vis0_def)
  from r s e0 e1 e2 e3 show ?thesis by (intro exI [of _ a']) simp
qed

text \<open>
  Claim C5, as it stands, does not hold: with three samples at which the noise source is
  off and an interpolator that needs four, the call ends with the interpolator's own
  exception, not with \<open>InsufficientSamples\<close>.
\<close>

theorem insufficient_samples_counterexample:
  "length (where_ix (map Not ns_few)) < 4
   \<and> fst (plot_vis1 example_spline \<lparr>flag_mask = False, flag_ns = True, interpolate_ns = True\<rparr>
             ts_few heap_few 0 1) = Inl (LibraryError ''dfitpack.error'')
   \<and> fst (plot_vis1 example_spline \<lparr>flag_mask = False, flag_ns = True, interpolate_ns = True\<rparr>
             ts_few heap_few 0 1) \<noteq> Inl InsufficientSamples"
  unfolding run_few off_few InsufficientSamples_def by simp

text \<open>
  Claim C5, amended. With \<open>flag_ns\<close> and \<open>interpolate_ns\<close> set, the code counts no samples
  itself. When the interpolator accepts the samples of every channel, the call returns a
  result, however few samples there are; when the interpolator raises for a channel, the
  call raises and returns no result; and every exception that the call raises is the one
  that the interpolator raised for the real or the imaginary part of some channel,
  unchanged.
\<close>

theorem interpolate_ns_errors:
  assumes "\<not> flag_mask params" and "flag_ns params" and "interpolate_ns params"
    and "ts ''ns_on'' = Some ns_on" and "lookup h vis = Some (Vis a)" and "well_shaped a"
    and "length ns_on \<le> shape0 a"
  shows "((\<forall>fi<shape1 a.
             (\<exists>f. itp (where_ix (map Not ns_on)) (map creal (column a (where_ix (map Not ns_on)) fi)) = Inr f)
           \<and> (\<exists>f. itp (where_ix (map Not ns_on)) (map cimag (column a (where_ix (map Not ns_on)) fi)) = Inr f))
          \<longrightarrow> fst (plot_vis1 itp params ts h vis vis_mask) = Inr (Array (length h)))
       \<and> ((\<exists>fi<shape1 a.
             (\<exists>e. itp (where_ix (map Not ns_on)) (map creal (column a (where_ix (map Not ns_on)) fi)) = Inl e)
           \<or> (\<exists>e. itp (where_ix (map Not ns_on)) (map cimag (column a (where_ix (map Not ns_on)) fi)) = Inl e))
          \<longrightarrow> (\<exists>e. fst (plot_vis1 itp params ts h vis vis_mask) = Inl e))
       \<and> (\<forall>e. fst (plot_vis1 itp params ts h vis vis_mask) = Inl e \<longrightarrow>
            (\<exists>fi<shape1 a.
               itp (where_ix (map Not ns_on)) (map creal (column a (where_ix (map Not ns_on)) fi)) = Inl e
             \<or> itp (where_ix (map Not ns_on)) (map cimag (column a (where_ix (map Not ns_on)) fi)) = Inl e))"
proof -
  let ?off = "where_ix (map Not ns_on)"
  let ?fe = "first_error itp ?off a [0..<shape1 a]"
  let ?res = "fst (plot_vis1 itp params ts h vis vis_mask)"
  from plot_vis1_interpolate [where ts = ts and itp = itp and vis_mask = vis_mask, OF assms]
  obtain a' where
    c: "plot_vis1 itp params ts h vis vis_mask
            = ((case ?fe of None \<Rightarrow> Inr (Array (length h)) | Some e \<Rightarrow> Inl e), h @ [Vis a'])
          \<and> well_shaped a' \<and> shape0 a' = shape0 a \<and> shape1 a' = shape1 a
          \<and> (?fe = None \<longrightarrow>
               (\<forall>t<shape0 a. \<forall>j<shape1 a.
                  rows a' ! t ! j = (if t < length ns_on \<and> ns_on ! t
                                     then interpolated itp ?off a j t
                                     else rows a ! t ! j)))" ..
  have res: "?res = (case ?fe of None \<Rightarrow> Inr (Array (length h)) | Some e \<Rightarrow> Inl e)"
    using c [THEN conjunct1] by simp
  have ok: "?res = Inr (Array (length h))"
    if "\<forall>fi<shape1 a. (\<exists>f. itp ?off (map creal (column a ?off fi)) = Inr f)
                     \<and> (\<exists>f. itp ?off (map cimag (column a ?off fi)) = Inr f)"
  proof -
    from that have "?fe = None" unfolding first_error_None by simp
    then show ?thesis unfolding res by simp
  qed
  have bad: "\<exists>e. ?res = Inl e"
    if "\<exists>fi<shape1 a. (\<exists>e. itp ?off (map creal (column a ?off fi)) = Inl e)
                     \<or> (\<exists>e. itp ?off (map cimag (column a ?off fi)) = Inl e)"
  proof (cases ?fe)
    case None
    then have all: "\<forall>fi\<in>set [0..<shape1 a].
                   (\<exists>f. itp ?off (map creal (column a ?off fi)) = Inr f)
                 \<and> (\<exists>f. itp ?off (map cimag (column a ?off fi)) = Inr f)"
      unfolding first_error_None .
    from that obtain fi where fi: "fi < shape1 a"
      and e: "(\<exists>e. itp ?off (map creal (column a ?off fi)) = Inl e)
              \<or> (\<exists>e. itp ?off (map cimag (column a ?off fi)) = Inl e)" by blast
    from fi have "fi \<in> set [0..<shape1 a]" by simp
    with all have "(\<exists>f. itp ?off (map creal (column a ?off fi)) = Inr f)
                 \<and> (\<exists>f. itp ?off (map cimag (column a ?off fi)) = Inr f)" by (rule bspec)
    with e have False by auto
    then show ?thesis ..
  next
    case (Some e)
    then show ?thesis unfolding res by simp
  qed
  have origin: "\<exists>fi<shape1 a. itp ?off (map creal (column a ?off fi)) = Inl e
                           \<or> itp ?off (map cimag (column a ?off fi)) = Inl e"
    if "?res = Inl e" for e
  proof (cases ?fe)
    case None
    with that show ?thesis unfolding res by simp
  next
    case (Some e')
    with that have "e' = e" unfolding res by simp
    with Some first_error_Some [of itp ?off a "[0..<shape1 a]" e] show ?thesis by auto
  qed
  show ?thesis using ok bad origin by blast
qed

theorem interpolate_ns_errors_witness:
  "(\<exists>e. fst (plot_vis1 example_spline \<lparr>flag_mask = False, flag_ns = True, interpolate_ns = True\<rparr>
             ts_few heap_few 0 1) = Inl e)
   \<and> fst (plot_vis1 example_spline \<lparr>flag_mask = False, flag_ns = True, interpolate_ns = True\<rparr>
             ts0 heap0 0 1) = Inr (Array 2)"
proof -
  let ?P = "\<lparr>flag_mask = False, flag_ns = True, interpolate_ns = True\<rparr>"
  have few: "example_spline (where_ix (map Not ns_few))
               (map creal (column vis_few (where_ix (map Not ns_few)) 0))
             = Inl (LibraryError ''dfitpack.error'')"
    by (simp add: example_spline_def off_few)
  have "\<exists>fi<shape1 vis_few.
          (\<exists>e. example_spline (where_ix (map Not ns_few))
                  (map creal (column vis_few (where_ix (map Not ns_few)) fi)) = Inl e)
        \<or> (\<exists>e. example_spline (where_ix (map Not ns_few))
                  (map cimag (column vis_few (where_ix (map Not ns_few)) fi)) = Inl e)"
  proof -
    have "0 < shape1 vis_few" by (simp add: vis_few_def)
    moreover have "\<exists>e. example_spline (where_ix (map Not ns_few))
               (map creal (column vis_few (where_ix (map Not ns_few)) 0)) = Inl e"
      by (rule exI [of _ "LibraryError ''dfitpack.error''"]) (rule few)
    ultimately show ?thesis by blast
  qed
  moreover have "lookup heap_few 0 = Some (Vis vis_few)" by (simp add: lookup_def heap_few_def)
  moreover have "well_shaped vis_few" by (simp add: well_shaped_def vis_few_def)
  moreover have "length ns_few \<le> shape0 vis_few" by (simp add: ns_few_def shape0_def vis_few_def)
  moreover have "ts_few ''ns_on'' = Some ns_few" by (simp add: ts_few_def)
  ultimately have a: "\<exists>e. fst (plot_vis1 example_spline ?P ts_few heap_few 0 1) = Inl e"
    using interpolate_ns_errors [where params = ?P and ts = ts_few and ns_on = ns_few and h = heap_few
        and vis = 0 and a = vis_few and itp = example_spline and vis_mask = 1]
    by simp
  have good: "\<forall>fi<shape1 vis0.
          (\<exists>f. example_spline (where_ix (map Not ns_on0))
                  (map creal (column vis0 (where_ix (map Not ns_on0)) fi)) = Inr f)
        \<and> (\<exists>f. example_spline (where_ix (map Not ns_on0))
                  (map cimag (column vis0 (where_ix (map Not ns_on0)) fi)) = Inr f)"
    by (simp add: example_spline_def off0)
  moreover have "length ns_on0 \<le> shape0 vis0" by (simp add: ns_on0_def shape_vis0)
  moreover have "ts0 ''ns_on'' = Some ns_on0" by (simp add: ts0_def)
  ultimately have b: "fst (plot_vis1 example_spline ?P ts0 heap0 0 1) = Inr (Array 2)"
    using interpolate_ns_errors [where params = ?P and ts = ts0 and ns_on = ns_on0 and h = heap0
        and vis = 0 and a = vis0 and itp = example_spline and vis_mask = 1]
      lookup_heap0 well_shaped_vis0
    by (simp add: heap0_def)
  from a b show ?thesis ..
qed

text \<open>
  Claim C6. In every mode and for every outcome, every object that is in the heap before
  the call is the same after it; in particular the visibility array and the mask array
  hold the same values.
\<close>

theorem plot_vis1_frame:
  "take (length h) (snd (plot_vis1 itp params ts h vis vis_mask)) = h
   \<and> (vis < length h \<longrightarrow> lookup (snd (plot_vis1 itp params ts h vis vis_mask)) vis = lookup h vis)
   \<and> (vis_mask < length h \<longrightarrow>
        lookup (snd (plot_vis1 itp params ts h vis vis_mask)) vis_mask = lookup h vis_mask)"
  using plot_vis1_heap [of h itp params ts vis vis_mask] lookup_take by blast

theorem plot_vis1_frame_witness:
  "take (length heap0)
     (snd (plot_vis1 example_spline \<lparr>flag_mask = False, flag_ns = True, interpolate_ns = True\<rparr>
             ts0 heap0 0 1)) = heap0
   \<and> 0 < length heap0
   \<and> lookup (snd (plot_vis1 example_spline \<lparr>flag_mask = False, flag_ns = True, interpolate_ns = True\<rparr>
                     ts0 heap0 0 1)) 0 = Some (Vis vis0)
   \<and> 1 < length heap0
   \<and> lookup (snd (plot_vis1 example_spline \<lparr>flag_mask = False, flag_ns = True, interpolate_ns = True\<rparr>
                     ts0 heap0 0 1)) 1 = Some (Mask mask0)"
proof -
  have l: "0 < length heap0" "1 < length heap0" by (simp_all add: heap0_def)
  have m: "lookup heap0 1 = Some (Mask mask0)" by (simp add: lookup_def heap0_def)
  from plot_vis1_frame [of heap0 example_spline
      "\<lparr>flag_mask = False, flag_ns = True, interpolate_ns = True\<rparr>" ts0 0 1] l lookup_heap0 m
  show ?thesis by simp
qed

text \<open>
  Claim C7. Interpolation is idempotent: when the call with \<open>flag_ns\<close> and
  \<open>interpolate_ns\<close> set returns an array, the same call on that array, with the same
  indicator, returns an array with the same contents.
\<close>

theorem interpolate_ns_idempotent:
  assumes "\<not> flag_mask params" and "flag_ns params" and "interpolate_ns params"
    and "ts ''ns_on'' = Some ns_on" and "lookup h vis = Some (Vis a)" and "well_shaped a"
    and "length ns_on \<le> shape0 a"
    and "plot_vis1 itp params ts h vis vis_mask = (Inr (Array vis1), h1)"
  shows "\<exists>vis2 h2 a1. plot_vis1 itp params ts h1 vis1 vis_mask = (Inr (Array vis2), h2)
           \<and> lookup h1 vis1 = Some (Vis a1) \<and> lookup h2 vis2 = Some (Vis a1)"
proof -
  let ?off = "where_ix (map Not ns_on)"
  let ?fe = "first_error itp ?off a [0..<shape1 a]"
  from plot_vis1_interpolate [where ts = ts and itp = itp and vis_mask = vis_mask, OF assms(1-7)]
  obtain a1 where
    c: "plot_vis1 itp params ts h vis vis_mask
            = ((case ?fe of None \<Rightarrow> Inr (Array (length h)) | Some e \<Rightarrow> Inl e), h @ [Vis a1])
          \<and> well_shaped a1 \<and> shape0 a1 = shape0 a \<and> shape1 a1 = shape1 a
          \<and> (?fe = None \<longrightarrow>
               (\<forall>t<shape0 a. \<forall>j<shape1 a.
                  rows a1 ! t ! j = (if t < length ns_on \<and> ns_on ! t
                                     then interpolated itp ?off a j t
                                     else rows a ! t ! j)))" ..
  note ws1 = c [THEN conjunct2, THEN conjunct1]
    and s0 = c [THEN conjunct2, THEN conjunct2, THEN conjunct1]
    and s1 = c [THEN conjunct2, THEN conjunct2, THEN conjunct2, THEN conjunct1]
  from c [THEN conjunct1] assms(8)
  have eq: "(case ?fe of None \<Rightarrow> Inr (Array (length h)) | Some e \<Rightarrow> Inl e) = Inr (Array vis1)"
    and h1: "h1 = h @ [Vis a1]" by simp_all
  have none: "?fe = None" using eq by (cases ?fe) simp_all
  have vis1: "vis1 = length h" using eq none by simp
  note ent = c [THEN conjunct2, THEN conjunct2, THEN conjunct2, THEN conjunct2, THEN mp, OF none,
      rule_format]
  have lk1: "lookup h1 vis1 = Some (Vis a1)" unfolding h1 vis1 by (simp add: lookup_def)
  have len1: "length ns_on \<le> shape0 a1" using assms(7) s0 by simp
  have row: "rows a1 ! i = rows a ! i" if i: "i \<in> set ?off" for i
  proof (rule nth_equalityI)
    from i have i1: "i < length ns_on" and i2: "\<not> ns_on ! i" by (simp_all add: set_where_ix_Not)
    from i1 assms(7) have i0: "i < shape0 a" by simp
    then have i0': "i < shape0 a1" using s0 by simp
    have la: "length (rows a ! i) = shape1 a" using assms(6) i0 by (rule well_shaped_nth)
    have l1: "length (rows a1 ! i) = shape1 a" using well_shaped_nth [OF ws1 i0'] s1 by simp
    show "length (rows a1 ! i) = length (rows a ! i)" using la l1 by simp
    fix j assume "j < length (rows a1 ! i)"
    then have "j < shape1 a" using l1 by simp
    from ent [OF i0 this] i2 show "rows a1 ! i ! j = rows a ! i ! j" by simp
  qed
  have col: "column a1 ?off j = column a ?off j" for j
    by (rule column_cong) (rule row)
  have fe1: "first_error itp ?off a1 [0..<shape1 a1] = None"
    using first_error_cong [of a1 ?off a itp "[0..<shape1 a]", OF col] none s1 by simp
  have ip: "interpolated itp ?off a1 j t = interpolated itp ?off a j t" for j t
    by (rule interpolated_cong) (rule col)
  from plot_vis1_interpolate [where ts = ts and itp = itp and vis_mask = vis_mask and h = h1
      and vis = vis1, OF assms(1-4) lk1 ws1 len1]
  obtain a2 where
    c2: "plot_vis1 itp params ts h1 vis1 vis_mask
            = ((case first_error itp ?off a1 [0..<shape1 a1] of
                  None \<Rightarrow> Inr (Array (length h1)) | Some e \<Rightarrow> Inl e), h1 @ [Vis a2])
          \<and> well_shaped a2 \<and> shape0 a2 = shape0 a1 \<and> shape1 a2 = shape1 a1
          \<and> (first_error itp ?off a1 [0..<shape1 a1] = None \<longrightarrow>
               (\<forall>t<shape0 a1. \<forall>j<shape1 a1.
                  rows a2 ! t ! j = (if t < length ns_on \<and> ns_on ! t
                                     then interpolated itp ?off a1 j t
                                     else rows a1 ! t ! j)))" ..
  note ws2 = c2 [THEN conjunct2, THEN conjunct1]
    and s02 = c2 [THEN conjunct2, THEN conjunct2, THEN conjunct1]
    and s12 = c2 [THEN conjunct2, THEN conjunct2, THEN conjunct2, THEN conjunct1]
    and ent2 = c2 [THEN conjunct2, THEN conjunct2, THEN conjunct2, THEN conjunct2, THEN mp, OF fe1,
      rule_format]
  have res2: "plot_vis1 itp params ts h1 vis1 vis_mask = (Inr (Array (length h1)), h1 @ [Vis a2])"
    using c2 [THEN conjunct1] unfolding fe1 by simp
  have same: "a2 = a1"
  proof (rule ndarray_eqI [OF ws2 ws1 s02 s12])
    fix t j assume t2: "t < shape0 a2" and j2: "j < shape1 a2"
    then have t1: "t < shape0 a1" and j1: "j < shape1 a1" using s02 s12 by simp_all
    then have t: "t < shape0 a" and j: "j < shape1 a" using s0 s1 by simp_all
    from ent2 [OF t1 j1] have "rows a2 ! t ! j = (if t < length ns_on \<and> ns_on ! t
                                     then interpolated itp ?off a j t
                                     else rows a1 ! t ! j)" unfolding ip .
    moreover from ent [OF t j] have "rows a1 ! t ! j = (if t < length ns_on \<and> ns_on ! t
                                     then interpolated itp ?off a j t
                                     else rows a ! t ! j)" .
    ultimately show "rows a2 ! t ! j = rows a1 ! t ! j" by simp
  qed
  have lk2: "lookup (h1 @ [Vis a2]) (length h1) = Some (Vis a1)"
    unfolding same by (simp add: lookup_def)
  show ?thesis
  proof (intro exI conjI)
    show "plot_vis1 itp params ts h1 vis1 vis_mask = (Inr (Array (length h1)), h1 @ [Vis a2])"
      by (rule res2)
    show "lookup h1 vis1 = Some (Vis a1)" by (rule lk1)
    show "lookup (h1 @ [Vis a2]) (length h1) = Some (Vis a1)" by (rule lk2)
  qed
qed

theorem interpolate_ns_idempotent_witness:
  "plot_vis1 example_spline \<lparr>flag_mask = False, flag_ns = True, interpolate_ns = True\<rparr> ts0 heap0 0 1
     = (Inr (Array 2), heap0 @ [Vis interp0])
   \<and> (\<exists>vis2 h2. plot_vis1 example_spline \<lparr>flag_mask = False, flag_ns = True, interpolate_ns = True\<rparr>
                     ts0 (heap0 @ [Vis interp0]) 2 1 = (Inr (Array vis2), h2)
        \<and> lookup h2 vis2 = Some (Vis interp0))"
proof -
  let ?P = "\<lparr>flag_mask = False, flag_ns = True, interpolate_ns = True\<rparr>"
  have len: "length ns_on0 \<le> shape0 vis0" by (simp add: ns_on0_def shape_vis0)
  have ts: "ts0 ''ns_on'' = Some ns_on0" by (simp add: ts0_def)
  have fl: "\<not> flag_mask ?P" "flag_ns ?P" "interpolate_ns ?P" by simp_all
  from interpolate_ns_idempotent [where ts = ts0 and itp = example_spline and vis_mask = 1,
      OF fl ts lookup_heap0 well_shaped_vis0 len run0]
  obtain vis2 h2 a1 where
    c: "plot_vis1 example_spline ?P ts0 (heap0 @ [Vis interp0]) 2 1 = (Inr (Array vis2), h2)
        \<and> lookup (heap0 @ [Vis interp0]) 2 = Some (Vis a1) \<and> lookup h2 vis2 = Some (Vis a1)"
    by blast
  from c have "a1 = interp0" by (simp add: lookup_def heap0_def)
  with c have "plot_vis1 example_spline ?P ts0 (heap0 @ [Vis interp0]) 2 1 = (Inr (Array vis2), h2)
        \<and> lookup h2 vis2 = Some (Vis interp0)" by simp
  then have "\<exists>vis2 h2. plot_vis1 example_spline ?P ts0 (heap0 @ [Vis interp0]) 2 1 = (Inr (Array vis2), h2)
        \<and> lookup h2 vis2 = Some (Vis interp0)" by (intro exI)
  with run0 show ?thesis ..
qed

text \<open>
  Claim C10. With \<open>flag_ns\<close> set and no dataset \<open>ns_on\<close> in the timestream, the result is
  the input visibility array itself and the heap is unchanged; nothing is raised.
\<close>

theorem flag_ns_without_ns_on:
  "ts ''ns_on'' = None \<Longrightarrow>
   plot_vis1 itp \<lparr>flag_mask = False, flag_ns = True, interpolate_ns = i\<rparr> ts h vis vis_mask
     = (Inr (Array vis), h)"
  by (simp add: plot_vis1_no_ns_on)

theorem flag_ns_without_ns_on_witness:
  "(Map.empty :: timestream) ''ns_on'' = None
   \<and> plot_vis1 example_spline \<lparr>flag_mask = False, flag_ns = True, interpolate_ns = True\<rparr>
        Map.empty heap0 0 1 = (Inr (Array 0), heap0)"
  using flag_ns_without_ns_on [of Map.empty example_spline True heap0 0 1] by simp

end
